theory Spec2Isabelle
  imports Main
begin

section \<open>The serverless gateway of the clinic backend\<close>

text \<open>
  The gateway is one Express application (the file \<^verbatim>\<open>src/unnamed/part_000\<close>):
  a process-wide cache of the mongoose connection (\<^verbatim>\<open>cachedDb\<close>, \<^verbatim>\<open>connectToDatabase\<close>),
  a chain of middleware registered with \<^verbatim>\<open>app.use\<close>, a health route, thirty-one mounted
  route groups, a not-found responder and an error handler.

  The embedding passes the process state explicitly. What the world outside the file decides
  (whether \<^verbatim>\<open>mongoose.connect\<close> resolves, the clock, what a mounted route group or the
  imported error handler answers) is a field of the record \<open>externals\<close>.
\<close>

subsection \<open>JavaScript values, errors and the environment\<close>

text \<open>The values the handlers of this file put into an object literal.\<close>

datatype jsval = JUndefined | JStr string

type_synonym js_object = "(string \<times> jsval) list"

text \<open>
  A thrown \<^verbatim>\<open>Error\<close>: its \<^verbatim>\<open>message\<close> and the status it carries, if any
  (body-parser errors carry one, a rejected \<^verbatim>\<open>mongoose.connect\<close> does not).
\<close>

record js_error =
  message :: string
  statusCode :: "nat option"

text \<open>\<^verbatim>\<open>process.env\<close>: a variable is a string or is not set.\<close>

record process_env =
  NODE_ENV :: "string option"
  MONGODB_URI :: "string option"

text \<open>
  \<^verbatim>\<open>a || b\<close> on an environment variable: an unset variable and the empty string are
  falsy, every other string is truthy.
\<close>

definition js_or :: "string option \<Rightarrow> string \<Rightarrow> string" where
  "js_or v d = (case v of None \<Rightarrow> d | Some s \<Rightarrow> (if s = [] then d else s))"

subsection \<open>The connection cache\<close>

text \<open>The second argument of \<^verbatim>\<open>mongoose.connect\<close>, lines 62 to 68.\<close>

record connect_options =
  useNewUrlParser :: bool
  useUnifiedTopology :: bool
  maxPoolSize :: nat
  serverSelectionTimeoutMS :: nat
  socketTimeoutMS :: nat

text \<open>What \<^verbatim>\<open>mongoose.connect\<close> resolves to is opaque to the gateway.\<close>

type_synonym handle = nat

datatype console_line =
  Log string
  | LogError string js_error

text \<open>
  The state of the process: the module variable \<^verbatim>\<open>cachedDb\<close> (\<open>None\<close> is \<^verbatim>\<open>null\<close>),
  mongoose's \<^verbatim>\<open>connection.readyState\<close> (0 disconnected, 1 connected, 2 connecting,
  3 disconnecting), mongoose's \<^verbatim>\<open>strictQuery\<close> setting, every call of
  \<^verbatim>\<open>mongoose.connect\<close> made so far with its two arguments, and the console.
\<close>

record proc_state =
  cachedDb :: "handle option"
  readyState :: nat
  strictQuery :: "bool option"
  connect_calls :: "(string option \<times> connect_options) list"
  console :: "console_line list"

definition initial_state :: proc_state where
  "initial_state =
     \<lparr>cachedDb = None, readyState = 0, strictQuery = None, connect_calls = [], console = []\<rparr>"

definition the_connect_options :: connect_options where
  "the_connect_options =
     \<lparr>useNewUrlParser = True, useUnifiedTopology = True, maxPoolSize = 10,
      serverSelectionTimeoutMS = 5000, socketTimeoutMS = 45000\<rparr>"

text \<open>
  \<^verbatim>\<open>mongoose.connect(uri, options)\<close>, the connect primitive of the library. The call is
  recorded; the world answers the \<open>n\<close>-th call of the process with \<open>answer n\<close>, either the
  rejection's error or the handle. mongoose leaves the connection in state 1 after a
  connect that resolved and in state 0 after one that was rejected.
\<close>

definition mongoose_connect ::
  "(nat \<Rightarrow> js_error + handle) \<Rightarrow> string option \<Rightarrow> connect_options \<Rightarrow> proc_state
     \<Rightarrow> (js_error + handle) \<times> proc_state" where
  "mongoose_connect answer uri opts s =
     (let r = answer (length (connect_calls s));
          s1 = s\<lparr>connect_calls := connect_calls s @ [(uri, opts)]\<rparr>
      in case r of
           Inl e \<Rightarrow> (Inl e, s1\<lparr>readyState := 0\<rparr>)
         | Inr h \<Rightarrow> (Inr h, s1\<lparr>readyState := 1\<rparr>))"

definition console_log :: "string \<Rightarrow> proc_state \<Rightarrow> proc_state" where
  "console_log l s = s\<lparr>console := console s @ [Log l]\<rparr>"

definition console_error :: "string \<Rightarrow> js_error \<Rightarrow> proc_state \<Rightarrow> proc_state" where
  "console_error l e s = s\<lparr>console := console s @ [LogError l e]\<rparr>"

text \<open>
  The test of line 54, \<^verbatim>\<open>cachedDb && mongoose.connection.readyState === 1\<close>: the value
  of \<^verbatim>\<open>cachedDb\<close> is \<^verbatim>\<open>null\<close> or the object a connect resolved to, which is truthy.
\<close>

definition warm :: "proc_state \<Rightarrow> bool" where
  "warm s = (cachedDb s \<noteq> None \<and> readyState s = 1)"

text \<open>
  \<^verbatim>\<open>connectToDatabase\<close>, lines 53 to 77. \<open>Inl e\<close> is the error thrown again by the
  \<^verbatim>\<open>catch\<close> branch, \<open>Inr h\<close> the value returned.
\<close>

definition connectToDatabase ::
  "process_env \<Rightarrow> (nat \<Rightarrow> js_error + handle) \<Rightarrow> proc_state
     \<Rightarrow> (js_error + handle) \<times> proc_state" where
  "connectToDatabase env answer s =
     (case (cachedDb s, readyState s = 1) of
        (Some h, True) \<Rightarrow> (Inr h, console_log ''Using cached database connection'' s)
      | _ \<Rightarrow>
         (let s1 = console_log ''Creating new database connection...'' s;
              s2 = s1\<lparr>strictQuery := Some False\<rparr>
          in case mongoose_connect answer (MONGODB_URI env) the_connect_options s2 of
               (Inr db, s3) \<Rightarrow>
                 (Inr db, console_log ''MongoDB Connected Successfully'' (s3\<lparr>cachedDb := Some db\<rparr>))
             | (Inl error, s3) \<Rightarrow>
                 (Inl error, console_error ''MongoDB connection error:'' error s3)))"

text \<open>Two calls one after the other; the second is made only when the first returned.\<close>

definition connect_twice ::
  "process_env \<Rightarrow> (nat \<Rightarrow> js_error + handle) \<Rightarrow> proc_state
     \<Rightarrow> (js_error + handle) \<times> (js_error + handle) \<times> proc_state" where
  "connect_twice env answer s =
     (let (r1, s1) = connectToDatabase env answer s;
          (r2, s2) = connectToDatabase env answer s1
      in (r1, r2, s2))"

subsection \<open>Requests and responses\<close>

text \<open>
  \<^verbatim>\<open>req.query\<close> as Express's query parser leaves it: a parameter holds a string, an
  array (the parameter was given several times) or a nested object.
\<close>

datatype qvalue =
  QUndefined
  | QStr string
  | QArr "qvalue list"
  | QObj "(string \<times> qvalue) list"

type_synonym query = "(string \<times> qvalue) list"

text \<open>
  What the two body parsers of lines 99 and 100 decide for a request: both accept the body,
  or \<^verbatim>\<open>express.json\<close> or \<^verbatim>\<open>express.urlencoded\<close> passes an error on (status 413 for a
  body over the limit of 10mb, 400 for a body that does not parse).
\<close>

datatype body_outcome = BodyOk | JsonFails js_error | UrlencodedFails js_error

text \<open>
  A request as Node and Express hand it to the first middleware. \<open>req_method\<close> is the method
  token, which Node delivers in upper case. \<open>originalUrl\<close> is the request target as it
  came (\<^verbatim>\<open>req.url\<close> before any router rewrites it), \<open>query\<close> is \<^verbatim>\<open>req.query\<close> as
  Express's query parser made it from the target. A request of this model carries no
  headers: it is not a conditional request (\<^verbatim>\<open>If-None-Match\<close>,
  \<^verbatim>\<open>If-Modified-Since\<close>), which Express may answer with status 304 and no body.
\<close>

record request =
  req_method :: string
  originalUrl :: string
  query :: query
  body_parse :: body_outcome

datatype body =
  EmptyBody
  | JsonBody js_object
  | DefaultPage
  | OtherBody string

record response =
  status :: nat
  body :: body

text \<open>
  \<^verbatim>\<open>JSON.stringify(obj)\<close> leaves out every property whose value is \<^verbatim>\<open>undefined\<close>.
  \<open>json_response\<close> is a status with the JSON body of an object.
\<close>

definition json_stringify :: "js_object \<Rightarrow> js_object" where
  "json_stringify obj = filter (\<lambda>(k, v). v \<noteq> JUndefined) obj"

definition json_response :: "nat \<Rightarrow> js_object \<Rightarrow> response" where
  "json_response code obj = \<lparr>status = code, body = JsonBody (json_stringify obj)\<rparr>"

text \<open>
  \<^verbatim>\<open>res.status(code).json(obj)\<close> in answer to the request \<open>r\<close>: Express sends the status
  and the JSON body, and to a \<^verbatim>\<open>HEAD\<close> request the status with no body.
\<close>

definition res_json :: "request \<Rightarrow> nat \<Rightarrow> js_object \<Rightarrow> response" where
  "res_json r code obj =
     (if req_method r = ''HEAD'' then \<lparr>status = code, body = EmptyBody\<rparr>
      else json_response code obj)"

text \<open>A field of a JSON body; \<open>None\<close> when the body is not JSON or has no such field.\<close>

definition field :: "response \<Rightarrow> string \<Rightarrow> jsval option" where
  "field res k = (case body res of JsonBody obj \<Rightarrow> map_of obj k | _ \<Rightarrow> None)"

text \<open>
  What a mounted route group (a router imported from \<^verbatim>\<open>../server/routes\<close>) does with a
  request: it answers, it calls \<^verbatim>\<open>next()\<close> because none of its routes matches, or it
  throws (or calls \<^verbatim>\<open>next(err)\<close>).
\<close>

datatype group_outcome = Responds response | CallsNext | Throws js_error

text \<open>
  The world outside the file: the answers of \<^verbatim>\<open>mongoose.connect\<close>, the clock read by
  \<^verbatim>\<open>new Date()\<close> (milliseconds since the epoch), what the packages
  \<^verbatim>\<open>express-mongo-sanitize\<close> and \<^verbatim>\<open>xss-clean\<close> make of the query, the route groups (by
  their mount path), the imported \<^verbatim>\<open>errorHandler\<close>, and the pathname that Node's
  \<^verbatim>\<open>url.parse\<close> finds in a request target.
\<close>

record externals =
  connect_answer :: "nat \<Rightarrow> js_error + handle"
  now :: int
  url_pathname :: "string \<Rightarrow> string"
  mongoSanitize :: "query \<Rightarrow> query"
  xss :: "query \<Rightarrow> query"
  group :: "string \<Rightarrow> request \<Rightarrow> group_outcome"
  errorHandler :: "js_error \<Rightarrow> request \<Rightarrow> response"

subsection \<open>The date of the health payload\<close>

text \<open>
  \<^verbatim>\<open>Date.prototype.toISOString\<close> of ECMAScript on a time value \<open>t\<close>, the milliseconds
  since 1970-01-01T00:00:00Z: the day is \<open>t div 86400000\<close> (rounded down), the date of
  the proleptic Gregorian calendar is computed from the day number counted from the first
  of March of year 0 (eras of 400 years; in an era, centuries, cycles of four years and
  years, the leap day being the last day of its cycle; in a year, the months from March),
  and a year outside 0..9999 is written with a sign and six digits.
\<close>

definition digit_char :: "nat \<Rightarrow> char" where
  "digit_char d = ''0123456789'' ! d"

fun decimal :: "nat \<Rightarrow> string" where
  "decimal n = (if n < 10 then [digit_char n] else decimal (n div 10) @ [digit_char (n mod 10)])"

declare decimal.simps [simp del]

definition padStart :: "nat \<Rightarrow> string \<Rightarrow> string" where
  "padStart w s = replicate (w - length s) (CHR ''0'') @ s"

definition years_and_day :: "nat \<Rightarrow> nat \<times> nat" where
  "years_and_day doe =
     (let n100 = min (doe div 36524) 3;
          doc = doe - n100 * 36524;
          n4 = doc div 1461;
          dof = doc mod 1461;
          n1 = min (dof div 365) 3
      in (n100 * 100 + n4 * 4 + n1, dof - n1 * 365))"

definition month_and_day :: "nat \<Rightarrow> nat \<times> nat" where
  "month_and_day doy =
     (let mp = (5 * doy + 2) div 153
      in (if mp < 10 then mp + 3 else mp - 9, doy - (153 * mp + 2) div 5 + 1))"

definition civil_from_days :: "int \<Rightarrow> int \<times> nat \<times> nat" where
  "civil_from_days days =
     (let z = days + 719468;
          (yoe, doy) = years_and_day (nat (z mod 146097));
          (m, d) = month_and_day doy
      in (z div 146097 * 400 + int yoe + (if m \<le> 2 then 1 else 0), m, d))"

definition year_string :: "int \<Rightarrow> string" where
  "year_string y =
     (if 0 \<le> y \<and> y \<le> 9999 then padStart 4 (decimal (nat y))
      else (if y < 0 then ''-'' else ''+'') @ padStart 6 (decimal (nat \<bar>y\<bar>)))"

definition toISOString :: "int \<Rightarrow> string" where
  "toISOString t =
     (let (y, m, d) = civil_from_days (t div 86400000);
          ms = nat (t mod 86400000)
      in year_string y @ ''-'' @ padStart 2 (decimal m) @ ''-'' @ padStart 2 (decimal d) @ ''T''
         @ padStart 2 (decimal (ms div 3600000)) @ '':''
         @ padStart 2 (decimal (ms div 60000 mod 60)) @ '':''
         @ padStart 2 (decimal (ms div 1000 mod 60)) @ ''.''
         @ padStart 3 (decimal (ms mod 1000)) @ ''Z'')"

text \<open>The range of the time values of a \<^verbatim>\<open>Date\<close>; \<^verbatim>\<open>new Date()\<close> is always inside.\<close>

definition valid_time :: "int \<Rightarrow> bool" where
  "valid_time t = (- 8640000000000000 \<le> t \<and> t \<le> 8640000000000000)"

text \<open>
  The ISO 8601 form of a date and time in UTC. In a template \<^verbatim>\<open>d\<close> stands for one
  decimal digit and every other character for itself.
\<close>

definition is_digit :: "char \<Rightarrow> bool" where
  "is_digit c = (c \<in> set ''0123456789'')"

fun matches_template :: "string \<Rightarrow> string \<Rightarrow> bool" where
  "matches_template [] [] = True"
| "matches_template (t # ts) (c # cs) =
     ((if t = CHR ''d'' then is_digit c else c = t) \<and> matches_template ts cs)"
| "matches_template _ _ = False"

definition is_iso8601 :: "string \<Rightarrow> bool" where
  "is_iso8601 s =
     (matches_template ''dddd-dd-ddTdd:dd:dd.dddZ'' s
      \<or> matches_template ''+dddddd-dd-ddTdd:dd:dd.dddZ'' s
      \<or> matches_template ''-dddddd-dd-ddTdd:dd:dd.dddZ'' s)"

subsection \<open>How Express matches a path\<close>

text \<open>
  The path of a request is the pathname of its target. For a target that begins with a
  slash and holds no \<^verbatim>\<open>#\<close> and no white space, Express (the package \<^verbatim>\<open>parseurl\<close>) cuts
  it at the first \<^verbatim>\<open>?\<close>; any other target (one in absolute form, one with a fragment) it
  hands to Node's \<^verbatim>\<open>url.parse\<close>, whose answer is \<open>url_pathname\<close>. The characters of a
  target are the octets of the request line, so that it holds no line break; the requests
  of this model are those in whose target a pathname is found.
\<close>

definition parse_triggers :: "char list" where
  "parse_triggers = [CHR 0x09, CHR 0x0A, CHR 0x0C, CHR 0x0D, CHR 0x20, CHR 0x23, CHR 0xA0]"

definition fast_path :: "string \<Rightarrow> bool" where
  "fast_path u =
     (case u of
        [] \<Rightarrow> False
      | c # cs \<Rightarrow> c = CHR ''/'' \<and> list_all (\<lambda>c. c \<notin> set parse_triggers) cs)"

definition req_path :: "externals \<Rightarrow> request \<Rightarrow> string" where
  "req_path x r =
     (if fast_path (originalUrl r) then takeWhile (\<lambda>c. c \<noteq> CHR ''?'') (originalUrl r)
      else url_pathname x (originalUrl r))"

text \<open>
  \<^verbatim>\<open>decodeURIComponent\<close> of ECMAScript throws a \<^verbatim>\<open>URIError\<close> unless every \<^verbatim>\<open>%\<close> is
  followed by two hexadecimal digits and the octets so written are well-formed UTF-8: an
  octet below 128 stands alone, a lead octet announces one to three continuation octets,
  each written as a \<^verbatim>\<open>%XX\<close> of its own, and the sequence must encode a code point in
  its shortest form, no surrogate and none above 10FFFF. \<open>decodes_from octets n s\<close> reads
  \<open>s\<close> when \<open>n\<close> continuation octets are still due after \<open>octets\<close>.
\<close>

definition hex_digit :: "char \<Rightarrow> nat option" where
  "hex_digit c =
     map_of (zip ''0123456789abcdefABCDEF''
               [0, 1, 2, 3, 4, 5, 6, 7, 8, 9, 10, 11, 12, 13, 14, 15, 10, 11, 12, 13, 14, 15]) c"

definition utf8_length :: "nat \<Rightarrow> nat option" where
  "utf8_length b =
     (if b < 128 then Some 1
      else if 192 \<le> b \<and> b < 224 then Some 2
      else if 224 \<le> b \<and> b < 240 then Some 3
      else if 240 \<le> b \<and> b < 248 then Some 4
      else None)"

definition continuation :: "nat \<Rightarrow> bool" where
  "continuation b = (128 \<le> b \<and> b \<le> 191)"

definition valid_utf8 :: "nat list \<Rightarrow> bool" where
  "valid_utf8 octets =
     (case octets of
        [b1, b2] \<Rightarrow> 194 \<le> b1 \<and> b1 \<le> 223 \<and> continuation b2
      | [b1, b2, b3] \<Rightarrow>
          ((b1 = 224 \<and> 160 \<le> b2 \<and> b2 \<le> 191)
           \<or> (225 \<le> b1 \<and> b1 \<le> 236 \<and> continuation b2)
           \<or> (b1 = 237 \<and> 128 \<le> b2 \<and> b2 \<le> 159)
           \<or> (238 \<le> b1 \<and> b1 \<le> 239 \<and> continuation b2))
          \<and> continuation b3
      | [b1, b2, b3, b4] \<Rightarrow>
          ((b1 = 240 \<and> 144 \<le> b2 \<and> b2 \<le> 191)
           \<or> (241 \<le> b1 \<and> b1 \<le> 243 \<and> continuation b2)
           \<or> (b1 = 244 \<and> 128 \<le> b2 \<and> b2 \<le> 143))
          \<and> continuation b3 \<and> continuation b4
      | _ \<Rightarrow> False)"

fun decodes_from :: "nat list \<Rightarrow> nat \<Rightarrow> string \<Rightarrow> bool" where
  "decodes_from octets n [] = (n = 0)"
| "decodes_from octets n (c # cs) =
     (if c = CHR ''%'' then
        (case cs of
           a # b # rest \<Rightarrow>
             (case (hex_digit a, hex_digit b) of
                (Some h, Some l) \<Rightarrow>
                  (if n = 0 then
                     (case utf8_length (16 * h + l) of
                        None \<Rightarrow> False
                      | Some k \<Rightarrow>
                          (if k = 1 then decodes_from [] 0 rest
                           else decodes_from [16 * h + l] (k - 1) rest))
                   else if n = 1 then
                     valid_utf8 (octets @ [16 * h + l]) \<and> decodes_from [] 0 rest
                   else decodes_from (octets @ [16 * h + l]) (n - 1) rest)
              | _ \<Rightarrow> False)
         | _ \<Rightarrow> False)
      else n = 0 \<and> decodes_from [] 0 cs)"

definition decodes :: "string \<Rightarrow> bool" where
  "decodes s = decodes_from [] 0 s"

text \<open>
  Express decodes what a path parameter matched (\<^verbatim>\<open>decode_param\<close>): an empty match is
  left alone, and a \<^verbatim>\<open>URIError\<close> becomes an error of status 400.
\<close>

definition decode_error :: "string \<Rightarrow> js_error" where
  "decode_error val =
     \<lparr>message = ''Failed to decode param '' @ [CHR 0x27] @ val @ [CHR 0x27],
      statusCode = Some 400\<rparr>"

definition decode_param :: "string \<Rightarrow> js_error option" where
  "decode_param val = (if val = [] \<or> decodes val then None else Some (decode_error val))"

text \<open>
  Express matches paths without regard to case (\<^verbatim>\<open>case sensitive routing\<close> is off by
  default) and, outside strict routing, lets a route path end in one more slash.
\<close>

definition lower_char :: "char \<Rightarrow> char" where
  "lower_char c =
     (case map_of (zip ''ABCDEFGHIJKLMNOPQRSTUVWXYZ'' ''abcdefghijklmnopqrstuvwxyz'') c of
        Some l \<Rightarrow> l
      | None \<Rightarrow> c)"

text \<open>\<^verbatim>\<open>app.get(p, ...)\<close>: the whole path is \<open>p\<close>, or \<open>p\<close> and a slash.\<close>

definition matches_route :: "string \<Rightarrow> string \<Rightarrow> bool" where
  "matches_route p path = (map lower_char path = p \<or> map lower_char path = p @ ''/'')"

text \<open>\<^verbatim>\<open>app.use(p, ...)\<close>: the path is \<open>p\<close>, or goes on with a slash after \<open>p\<close>.\<close>

definition matches_mount :: "string \<Rightarrow> string \<Rightarrow> bool" where
  "matches_mount p path =
     (take (length p) (map lower_char path) = p
      \<and> (case drop (length p) path of [] \<Rightarrow> True | c # _ \<Rightarrow> c = CHR ''/''))"

text \<open>
  \<^verbatim>\<open>app.use('/api/*', ...)\<close>: the path begins with \<^verbatim>\<open>/api/\<close>; the parameter is what
  follows.
\<close>

definition matches_api_star :: "string \<Rightarrow> bool" where
  "matches_api_star path = (take 5 (map lower_char path) = ''/api/'')"

text \<open>
  A route registered with \<^verbatim>\<open>app.get\<close> also serves \<^verbatim>\<open>HEAD\<close> when the path has no
  \<^verbatim>\<open>HEAD\<close> route of its own.
\<close>

definition handles_get :: "string \<Rightarrow> bool" where
  "handles_get m = (m = ''GET'' \<or> m = ''HEAD'')"

subsection \<open>The middleware of the packages\<close>

text \<open>
  What a layer does with a request: it calls \<^verbatim>\<open>next()\<close>, it passes an error on, or it
  ends the response.
\<close>

datatype outcome =
  Next request proc_state
  | NextError js_error request proc_state
  | Ended response proc_state

record cors_options =
  preflightContinue :: bool
  optionsSuccessStatus :: nat

text \<open>
  The options of line 80 to 87 that decide an answer (the others only set headers, which
  the responses of this model do not carry), and the defaults of the package, used by
  \<^verbatim>\<open>cors()\<close> on line 90.
\<close>

definition the_cors_options :: cors_options where
  "the_cors_options = \<lparr>preflightContinue = False, optionsSuccessStatus = 200\<rparr>"

definition cors_defaults :: cors_options where
  "cors_defaults = \<lparr>preflightContinue = False, optionsSuccessStatus = 204\<rparr>"

text \<open>
  Modelled from the spec: the code of the package \<^verbatim>\<open>cors\<close> is missing (it is a dependency,
  not under src/). "A request with method OPTIONS is answered immediately with a success
  status and no body (preflight short-circuit) - this must terminate the pipeline before
  any later stage runs." The success status is the option \<^verbatim>\<open>optionsSuccessStatus\<close>; the
  package goes on to the next layer instead when \<^verbatim>\<open>preflightContinue\<close> is set, and for
  every other method.
\<close>

definition cors :: "cors_options \<Rightarrow> request \<Rightarrow> proc_state \<Rightarrow> outcome" where
  "cors opts r s =
     (if req_method r = ''OPTIONS'' \<and> \<not> preflightContinue opts
      then Ended \<lparr>status = optionsSuccessStatus opts, body = EmptyBody\<rparr> s
      else Next r s)"

record hpp_options =
  checkQuery :: bool
  whitelist :: "string list"

text \<open>\<^verbatim>\<open>hpp()\<close> on line 105 passes no options: the query is checked, nothing is exempt.\<close>

definition hpp_defaults :: hpp_options where
  "hpp_defaults = \<lparr>checkQuery = True, whitelist = []\<rparr>"


definition last_value :: "qvalue \<Rightarrow> qvalue" where
  "last_value v =
     (case v of
        QArr vs \<Rightarrow> (case vs of [] \<Rightarrow> QUndefined | _ # _ \<Rightarrow> last vs)
      | _ \<Rightarrow> v)"

text \<open>
  Modelled from the spec: the code of the package \<^verbatim>\<open>hpp\<close> is missing (it is a dependency,
  not under src/). "When a query parameter appears multiple times, only the last occurrence
  is retained (unless explicitly whitelisted for array use)." The guard works on
  \<^verbatim>\<open>req.query\<close>, where a parameter that appeared multiple times holds an array: such a
  parameter is left with the last element, and a parameter with any other value, a nested
  object included, is left as it is.
\<close>

definition hpp_query :: "hpp_options \<Rightarrow> query \<Rightarrow> query" where
  "hpp_query opts q =
     (if checkQuery opts
      then map (\<lambda>(k, v). if k \<in> set (whitelist opts) then (k, v) else (k, last_value v)) q
      else q)"

definition hpp :: "hpp_options \<Rightarrow> request \<Rightarrow> proc_state \<Rightarrow> outcome" where
  "hpp opts r s = Next (r\<lparr>query := hpp_query opts (query r)\<rparr>) s"

text \<open>
  \<^verbatim>\<open>helmet\<close> and \<^verbatim>\<open>compression\<close> work on the headers and the encoding of the response and
  always go on; the body parsers pass their error on; the two sanitizers rewrite the query
  (and the body, which a request of this model does not carry).
\<close>

definition pass :: "request \<Rightarrow> proc_state \<Rightarrow> outcome" where
  "pass r s = Next r s"

definition json_parser :: "request \<Rightarrow> proc_state \<Rightarrow> outcome" where
  "json_parser r s = (case body_parse r of JsonFails e \<Rightarrow> NextError e r s | _ \<Rightarrow> Next r s)"

definition urlencoded_parser :: "request \<Rightarrow> proc_state \<Rightarrow> outcome" where
  "urlencoded_parser r s =
     (case body_parse r of UrlencodedFails e \<Rightarrow> NextError e r s | _ \<Rightarrow> Next r s)"

definition sanitizer :: "(query \<Rightarrow> query) \<Rightarrow> request \<Rightarrow> proc_state \<Rightarrow> outcome" where
  "sanitizer f r s = Next (r\<lparr>query := f (query r)\<rparr>) s"

subsection \<open>The handlers of the file\<close>

text \<open>
  The connection gate, lines 109 to 121: the object its \<^verbatim>\<open>catch\<close> branch passes to
  \<^verbatim>\<open>res.status(500).json\<close>, that answer with its JSON body, and the middleware.
\<close>

definition connection_failed_object :: "process_env \<Rightarrow> js_error \<Rightarrow> js_object" where
  "connection_failed_object env error =
     [(''status'', JStr ''error''),
      (''message'', JStr ''Database connection failed''),
      (''error'',
         if NODE_ENV env = Some ''development'' then JStr (message error) else JUndefined)]"


definition connection_gate ::
  "process_env \<Rightarrow> (nat \<Rightarrow> js_error + handle) \<Rightarrow> request \<Rightarrow> proc_state \<Rightarrow> outcome" where
  "connection_gate env answer r s =
     (case connectToDatabase env answer s of
        (Inr db, s1) \<Rightarrow> Next r s1
      | (Inl error, s1) \<Rightarrow>
          Ended (res_json r 500 (connection_failed_object env error))
            (console_error ''Database connection middleware error:'' error s1))"

text \<open>
  The health check, lines 124 to 132; \<open>t\<close> is the time \<^verbatim>\<open>new Date()\<close> reads. The object
  passed to \<^verbatim>\<open>res.status(200).json\<close>, that answer with its JSON body, and the handler.
\<close>

definition health_object :: "process_env \<Rightarrow> int \<Rightarrow> proc_state \<Rightarrow> js_object" where
  "health_object env t s =
     [(''status'', JStr ''success''),
      (''message'', JStr ''Hospital Management API is running''),
      (''timestamp'', JStr (toISOString t)),
      (''environment'', JStr (js_or (NODE_ENV env) ''production'')),
      (''mongoStatus'', JStr (if readyState s = 1 then ''connected'' else ''disconnected''))]"

definition health_payload :: "process_env \<Rightarrow> int \<Rightarrow> proc_state \<Rightarrow> response" where
  "health_payload env t s = json_response 200 (health_object env t s)"

definition health :: "process_env \<Rightarrow> int \<Rightarrow> request \<Rightarrow> proc_state \<Rightarrow> outcome" where
  "health env t r s = Ended (res_json r 200 (health_object env t s)) s"

text \<open>The 404 handler, lines 168 to 173, in the same three steps.\<close>

definition route_not_found_object :: "request \<Rightarrow> js_object" where
  "route_not_found_object r =
     [(''status'', JStr ''error''),
      (''message'', JStr (''API route '' @ originalUrl r @ '' not found''))]"

definition route_not_found :: "request \<Rightarrow> response" where
  "route_not_found r = json_response 404 (route_not_found_object r)"

definition not_found :: "request \<Rightarrow> proc_state \<Rightarrow> outcome" where
  "not_found r s = Ended (res_json r 404 (route_not_found_object r)) s"

text \<open>
  A mounted route group, lines 135 to 165, and the imported error handler, line 176, which
  is taken to be an error-handling middleware (a function of four arguments) that answers.
\<close>

definition route_group :: "externals \<Rightarrow> string \<Rightarrow> request \<Rightarrow> proc_state \<Rightarrow> outcome" where
  "route_group x p r s =
     (case group x p r of
        Responds res \<Rightarrow> Ended res s
      | CallsNext \<Rightarrow> Next r s
      | Throws e \<Rightarrow> NextError e r s)"

definition error_sink :: "externals \<Rightarrow> js_error \<Rightarrow> request \<Rightarrow> proc_state \<Rightarrow> outcome" where
  "error_sink x e r s = Ended (errorHandler x e r) s"

subsection \<open>The application\<close>

datatype stage =
  Cors
  | PreflightRoute
  | Helmet
  | JsonParser
  | UrlencodedParser
  | MongoSanitize
  | XssClean
  | Hpp
  | Compression
  | ConnectionGate
  | HealthRoute
  | RouteGroup string
  | NotFoundHandler
  | ErrorHandler
  | FinalHandler

text \<open>
  A layer of the stack: a handler behind a test of the request (\<^verbatim>\<open>app.use\<close>,
  \<^verbatim>\<open>app.get\<close>, \<^verbatim>\<open>app.options\<close>), or an error handler (\<^verbatim>\<open>app.use\<close> of a function of
  four arguments). The test says whether the layer matches the request, or fails with the
  error of a parameter that does not decode.
\<close>

datatype layer =
  Use stage "request \<Rightarrow> js_error + bool" "request \<Rightarrow> proc_state \<Rightarrow> outcome"
  | UseError stage "js_error \<Rightarrow> request \<Rightarrow> proc_state \<Rightarrow> outcome"

definition always :: "request \<Rightarrow> js_error + bool" where
  "always r = Inr True"

text \<open>
  \<^verbatim>\<open>app.options('*', ...)\<close>, line 90: the path \<^verbatim>\<open>*\<close> matches every path and its
  parameter is the whole path, which Express decodes before it looks at the method.
\<close>

definition matches_star_options :: "externals \<Rightarrow> request \<Rightarrow> js_error + bool" where
  "matches_star_options x r =
     (case decode_param (req_path x r) of
        Some e \<Rightarrow> Inl e
      | None \<Rightarrow> Inr (req_method r = ''OPTIONS''))"

text \<open>\<^verbatim>\<open>app.use('/api/*', ...)\<close>, line 168, with its parameter.\<close>

definition matches_api_catch_all :: "externals \<Rightarrow> request \<Rightarrow> js_error + bool" where
  "matches_api_catch_all x r =
     (if matches_api_star (req_path x r)
      then (case decode_param (drop 5 (req_path x r)) of Some e \<Rightarrow> Inl e | None \<Rightarrow> Inr True)
      else Inr False)"

text \<open>The mount paths of lines 135 to 165, in their order.\<close>

definition route_table :: "string list" where
  "route_table =
     [''/api/auth'', ''/api/users'', ''/api/patients'', ''/api/doctors'', ''/api/surgeons'',
      ''/api/nurses'', ''/api/departments'', ''/api/appointments'', ''/api/visits'',
      ''/api/wards'', ''/api/beds'', ''/api/ipd-records'', ''/api/dashboard'',
      ''/api/lab-tests'', ''/api/radiology'', ''/api/theatres'', ''/api/theatre-procedures'',
      ''/api/prescriptions'', ''/api/medicines'', ''/api/billing'', ''/api/services'',
      ''/api/stock'', ''/api/dispensing'', ''/api/direct-dispensing'', ''/api/requisitions'',
      ''/api/item-pricing'', ''/api/item-receiving'', ''/api/incoming-items'', ''/api/corpses'',
      ''/api/cabinets'', ''/api/releases'']"

definition group_layer :: "externals \<Rightarrow> string \<Rightarrow> layer" where
  "group_layer x p =
     Use (RouteGroup p) (\<lambda>r. Inr (matches_mount p (req_path x r))) (route_group x p)"

text \<open>The layers registered up to the connection gate, lines 80 to 121.\<close>

definition security_pipeline :: "process_env \<Rightarrow> externals \<Rightarrow> layer list" where
  "security_pipeline env x =
     [Use Cors always (cors the_cors_options),
      Use PreflightRoute (matches_star_options x) (cors cors_defaults),
      Use Helmet always pass,
      Use JsonParser always json_parser,
      Use UrlencodedParser always urlencoded_parser,
      Use MongoSanitize always (sanitizer (mongoSanitize x)),
      Use XssClean always (sanitizer (xss x)),
      Use Hpp always (hpp hpp_defaults),
      Use Compression always pass,
      Use ConnectionGate always (connection_gate env (connect_answer x))]"

text \<open>The layers registered after the gate, lines 124 to 176.\<close>

definition router :: "process_env \<Rightarrow> externals \<Rightarrow> layer list" where
  "router env x =
     [Use HealthRoute
        (\<lambda>r. Inr (matches_route ''/api/health'' (req_path x r) \<and> handles_get (req_method r)))
        (health env (now x))]
     @ map (group_layer x) route_table
     @ [Use NotFoundHandler (matches_api_catch_all x) not_found,
        UseError ErrorHandler (error_sink x)]"

definition app :: "process_env \<Rightarrow> externals \<Rightarrow> layer list" where
  "app env x = security_pipeline env x @ router env x"

text \<open>
  What Express answers when the stack is exhausted: 404, or the status of the error
  (500 when it carries none), with a page of its own, which a \<^verbatim>\<open>HEAD\<close> request does
  not get.
\<close>

definition final_handler :: "request \<Rightarrow> js_error option \<Rightarrow> response" where
  "final_handler r err =
     \<lparr>status =
        (case err of
           None \<Rightarrow> 404
         | Some e \<Rightarrow> (case statusCode e of Some c \<Rightarrow> c | None \<Rightarrow> 500)),
      body = (if req_method r = ''HEAD'' then EmptyBody else DefaultPage)\<rparr>"

text \<open>A stage ran, and then the rest; what follows a layer's outcome.\<close>

definition ran ::
  "stage \<Rightarrow> response \<times> proc_state \<times> stage list \<Rightarrow> response \<times> proc_state \<times> stage list" where
  "ran st res = (case res of (resp, s, trace) \<Rightarrow> (resp, s, st # trace))"

definition continue ::
  "(js_error option \<Rightarrow> request \<Rightarrow> proc_state \<Rightarrow> response \<times> proc_state \<times> stage list)
     \<Rightarrow> outcome \<Rightarrow> response \<times> proc_state \<times> stage list" where
  "continue rest out =
     (case out of
        Next r s \<Rightarrow> rest None r s
      | NextError e r s \<Rightarrow> rest (Some e) r s
      | Ended resp s \<Rightarrow> (resp, s, []))"

text \<open>
  Express runs the stack in the order of registration. A layer that does not match is
  skipped; a test that fails passes its error on; while an error is passed on, only error
  handlers run. The result is the response, the state of the process afterwards, and the
  stages that ran, in order.
\<close>

fun run ::
  "layer list \<Rightarrow> js_error option \<Rightarrow> request \<Rightarrow> proc_state
     \<Rightarrow> response \<times> proc_state \<times> stage list" where
  "run [] err r s = (final_handler r err, s, [FinalHandler])"
| "run (Use st test h # ls) None r s =
     (case test r of
        Inl e \<Rightarrow> run ls (Some e) r s
      | Inr matched \<Rightarrow>
          (if matched then ran st (continue (run ls) (h r s)) else run ls None r s))"
| "run (Use st test h # ls) (Some e) r s = run ls (Some e) r s"
| "run (UseError st h # ls) None r s = run ls None r s"
| "run (UseError st h # ls) (Some e) r s = ran st (continue (run ls) (h e r s))"

definition handle_request ::
  "process_env \<Rightarrow> externals \<Rightarrow> proc_state \<Rightarrow> request
     \<Rightarrow> response \<times> proc_state \<times> stage list" where
  "handle_request env x s r = run (app env x) None r s"

text \<open>The requests of a process, one after the other.\<close>

fun serve :: "process_env \<Rightarrow> externals \<Rightarrow> proc_state \<Rightarrow> request list \<Rightarrow> proc_state" where
  "serve env x s [] = s"
| "serve env x s (r # rs) = serve env x (fst (snd (handle_request env x s r))) rs"

subsection \<open>Vocabulary of the statements\<close>

text \<open>The stages a request has run through when it leaves the connection gate.\<close>

definition pre_gate :: "stage list" where
  "pre_gate =
     [Cors, Helmet, JsonParser, UrlencodedParser, MongoSanitize, XssClean, Hpp, Compression,
      ConnectionGate]"

text \<open>The stages that are route handlers: the health route, a route group, the 404 handler.\<close>

definition route_handler :: "stage \<Rightarrow> bool" where
  "route_handler st =
     (case st of
        HealthRoute \<Rightarrow> True
      | RouteGroup p \<Rightarrow> True
      | NotFoundHandler \<Rightarrow> True
      | _ \<Rightarrow> False)"

text \<open>
  A request reaches the gate when the preflight answer does not end it, its path decodes
  and the body parsers accept it.
\<close>

definition reaches_gate :: "externals \<Rightarrow> request \<Rightarrow> bool" where
  "reaches_gate x r =
     (req_method r \<noteq> ''OPTIONS'' \<and> decode_param (req_path x r) = None \<and> body_parse r = BodyOk)"

text \<open>The request as the sanitizers and the pollution guard leave it.\<close>

definition guarded :: "externals \<Rightarrow> request \<Rightarrow> request" where
  "guarded x r = r\<lparr>query := hpp_query hpp_defaults (xss x (mongoSanitize x (query r)))\<rparr>"

text \<open>A result whose trace is preceded by the stages that ran before.\<close>

definition after ::
  "stage list \<Rightarrow> response \<times> proc_state \<times> stage list \<Rightarrow> response \<times> proc_state \<times> stage list" where
  "after stages res = (case res of (resp, s, trace) \<Rightarrow> (resp, s, stages @ trace))"

text \<open>
  In a trace, no route handler stands before the connection gate: a route handler that
  ran, ran after the gate.
\<close>

definition gated :: "stage list \<Rightarrow> bool" where
  "gated trace =
     list_all (\<lambda>st. \<not> route_handler st) (takeWhile (\<lambda>st. st \<noteq> ConnectionGate) trace)"

text \<open>A call of \<^verbatim>\<open>mongoose.connect\<close> made with the two timeouts of lines 66 and 67.\<close>

definition bounded_wait :: "string option \<times> connect_options \<Rightarrow> bool" where
  "bounded_wait c = (serverSelectionTimeoutMS (snd c) = 5000 \<and> socketTimeoutMS (snd c) = 45000)"

text \<open>The path matches an entry of the route table, lines 135 to 165.\<close>

definition in_route_table :: "string \<Rightarrow> bool" where
  "in_route_table path = list_ex (\<lambda>p. matches_mount p path) route_table"

text \<open>The query as it arrives at the pollution guard, after the two sanitizers.\<close>

definition arriving :: "externals \<Rightarrow> request \<Rightarrow> query" where
  "arriving x r = xss x (mongoSanitize x (query r))"

subsection \<open>Example inputs\<close>

definition always_resolves :: "nat \<Rightarrow> js_error + handle" where
  "always_resolves n = Inr 7"

definition always_rejects :: "nat \<Rightarrow> js_error + handle" where
  "always_rejects n = Inl \<lparr>message = ''connect ECONNREFUSED'', statusCode = None\<rparr>"

definition example_env :: process_env where
  "example_env = \<lparr>NODE_ENV = None, MONGODB_URI = Some ''mongodb://db.example/clinic''\<rparr>"

definition no_group_answers :: "string \<Rightarrow> request \<Rightarrow> group_outcome" where
  "no_group_answers p r = CallsNext"

definition example_errorHandler :: "js_error \<Rightarrow> request \<Rightarrow> response" where
  "example_errorHandler e r =
     \<lparr>status = (case statusCode e of Some c \<Rightarrow> c | None \<Rightarrow> 500), body = OtherBody (message e)\<rparr>"

definition unchanged :: "query \<Rightarrow> query" where
  "unchanged q = q"

text \<open>The pathname of a target in origin form: what stands before the first \<^verbatim>\<open>?\<close> or \<^verbatim>\<open>#\<close>.\<close>

definition origin_pathname :: "string \<Rightarrow> string" where
  "origin_pathname u = takeWhile (\<lambda>c. c \<noteq> CHR ''?'' \<and> c \<noteq> CHR ''#'') u"

definition world_up :: externals where
  "world_up =
     \<lparr>connect_answer = always_resolves, now = 1700000000000, url_pathname = origin_pathname,
      mongoSanitize = unchanged, xss = unchanged, group = no_group_answers,
      errorHandler = example_errorHandler\<rparr>"

definition world_down :: externals where
  "world_down = world_up\<lparr>connect_answer := always_rejects\<rparr>"

definition example_request :: "string \<Rightarrow> string \<Rightarrow> request" where
  "example_request m url = \<lparr>req_method = m, originalUrl = url, query = [], body_parse = BodyOk\<rparr>"

text \<open>
  Two requests with \<^verbatim>\<open>req.query\<close> as the query parser makes it: a plain name given twice
  is an array, a bracketed name given twice is an array inside an object.
\<close>

definition polluted_request :: request where
  "polluted_request =
     \<lparr>req_method = ''GET'', originalUrl = ''/api/patients?status=A&status=B'',
      query = [(''status'', QArr [QStr ''A'', QStr ''B''])], body_parse = BodyOk\<rparr>"

definition nested_request :: request where
  "nested_request =
     \<lparr>req_method = ''GET'', originalUrl = ''/api/patients?a[b]=1&a[b]=2'',
      query = [(''a'', QObj [(''b'', QArr [QStr ''1'', QStr ''2''])])], body_parse = BodyOk\<rparr>"

definition warm_state :: proc_state where
  "warm_state = initial_state\<lparr>cachedDb := Some 7, readyState := 1\<rparr>"

section \<open>The connection cache: reuse and failure\<close>

lemma console_log_fields [simp]:
  "cachedDb (console_log l s) = cachedDb s"
  "readyState (console_log l s) = readyState s"
  "connect_calls (console_log l s) = connect_calls s"
  by (simp_all add: console_log_def)

lemma console_error_fields [simp]:
  "cachedDb (console_error l e s) = cachedDb s"
  "readyState (console_error l e s) = readyState s"
  "connect_calls (console_error l e s) = connect_calls s"
  by (simp_all add: console_error_def)

lemma connectToDatabase_warm:
  assumes "cachedDb s = Some h" and "readyState s = 1"
  shows "connectToDatabase env answer s = (Inr h, console_log ''Using cached database connection'' s)"
  using assms by (simp add: connectToDatabase_def)

lemma connectToDatabase_cold_resolved:
  assumes "\<not> warm s" and "answer (length (connect_calls s)) = Inr db"
  shows "fst (connectToDatabase env answer s) = Inr db"
    and "cachedDb (snd (connectToDatabase env answer s)) = Some db"
    and "readyState (snd (connectToDatabase env answer s)) = 1"
    and "connect_calls (snd (connectToDatabase env answer s)) =
           connect_calls s @ [(MONGODB_URI env, the_connect_options)]"
  using assms
  by (auto simp: connectToDatabase_def warm_def mongoose_connect_def console_log_def Let_def
      split: option.splits bool.splits)

lemma connectToDatabase_cold_rejected:
  assumes "\<not> warm s" and "answer (length (connect_calls s)) = Inl e"
  shows "fst (connectToDatabase env answer s) = Inl e"
    and "cachedDb (snd (connectToDatabase env answer s)) = cachedDb s"
    and "readyState (snd (connectToDatabase env answer s)) = 0"
    and "connect_calls (snd (connectToDatabase env answer s)) =
           connect_calls s @ [(MONGODB_URI env, the_connect_options)]"
  using assms
  by (auto simp: connectToDatabase_def warm_def mongoose_connect_def console_log_def
      console_error_def Let_def split: option.splits bool.splits)

lemma connectToDatabase_calls:
  "connect_calls (snd (connectToDatabase env answer s)) =
     (if warm s then connect_calls s
      else connect_calls s @ [(MONGODB_URI env, the_connect_options)])"
  by (auto simp: connectToDatabase_def warm_def mongoose_connect_def console_log_def
      console_error_def Let_def split: option.splits bool.splits sum.splits)

lemma connectToDatabase_not_warm_after_rejection:
  assumes "\<not> warm s" and "answer (length (connect_calls s)) = Inl e"
  shows "\<not> warm (snd (connectToDatabase env answer s))"
  using connectToDatabase_cold_rejected(3) [of s answer e env] assms by (simp add: warm_def)

text \<open>
  C3. When a handle is cached and mongoose reports state 1, \<^verbatim>\<open>connectToDatabase\<close>
  returns the cached handle and its only effect is a line on the console: no call of
  \<^verbatim>\<open>mongoose.connect\<close> is made, by one call or by two calls in sequence. Starting cold
  (state \<open>c\<close>) with a connect that resolves, a first call followed by a second one makes
  exactly one call of \<^verbatim>\<open>mongoose.connect\<close> in total, and both return the handle.
\<close>

theorem cached_connection_is_reused:
  "(cachedDb s = Some h \<and> readyState s = 1 \<longrightarrow>
      connectToDatabase env answer s = (Inr h, console_log ''Using cached database connection'' s)
      \<and> connect_calls (snd (connectToDatabase env answer s)) = connect_calls s
      \<and> fst (connect_twice env answer s) = Inr h
      \<and> fst (snd (connect_twice env answer s)) = Inr h
      \<and> connect_calls (snd (snd (connect_twice env answer s))) = connect_calls s)
   \<and> (\<not> warm c \<and> answer (length (connect_calls c)) = Inr db \<longrightarrow>
      fst (connect_twice env answer c) = Inr db
      \<and> fst (snd (connect_twice env answer c)) = Inr db
      \<and> connect_calls (snd (snd (connect_twice env answer c))) =
          connect_calls c @ [(MONGODB_URI env, the_connect_options)])"
proof (intro conjI impI)
  assume w: "cachedDb s = Some h \<and> readyState s = 1"
  then show one: "connectToDatabase env answer s =
      (Inr h, console_log ''Using cached database connection'' s)"
    by (simp add: connectToDatabase_warm)
  then show "connect_calls (snd (connectToDatabase env answer s)) = connect_calls s"
    by simp
  have again: "connectToDatabase env answer (console_log ''Using cached database connection'' s) =
      (Inr h, console_log ''Using cached database connection''
                (console_log ''Using cached database connection'' s))"
    using w by (simp add: connectToDatabase_warm)
  show "fst (connect_twice env answer s) = Inr h"
    by (simp add: connect_twice_def one again)
  show "fst (snd (connect_twice env answer s)) = Inr h"
    by (simp add: connect_twice_def one again)
  show "connect_calls (snd (snd (connect_twice env answer s))) = connect_calls s"
    by (simp add: connect_twice_def one again)
next
  assume cold: "\<not> warm c \<and> answer (length (connect_calls c)) = Inr db"
  obtain r1 s1 where first: "connectToDatabase env answer c = (r1, s1)"
    by (cases "connectToDatabase env answer c")
  from cold have r1: "r1 = Inr db" and cached: "cachedDb s1 = Some db"
    and ready: "readyState s1 = 1"
    and calls: "connect_calls s1 = connect_calls c @ [(MONGODB_URI env, the_connect_options)]"
    using connectToDatabase_cold_resolved [of c answer db env] by (simp_all add: first)
  have second: "connectToDatabase env answer s1 =
      (Inr db, console_log ''Using cached database connection'' s1)"
    using cached ready by (rule connectToDatabase_warm)
  show "fst (connect_twice env answer c) = Inr db"
    by (simp add: connect_twice_def first second r1)
  show "fst (snd (connect_twice env answer c)) = Inr db"
    by (simp add: connect_twice_def first second)
  show "connect_calls (snd (snd (connect_twice env answer c))) =
      connect_calls c @ [(MONGODB_URI env, the_connect_options)]"
    by (simp add: connect_twice_def first second calls)
qed

theorem cached_connection_is_reused_witness:
  "cachedDb warm_state = Some 7
   \<and> readyState warm_state = 1
   \<and> fst (connect_twice example_env always_resolves warm_state) = Inr 7
   \<and> connect_calls (snd (snd (connect_twice example_env always_resolves warm_state))) = []
   \<and> \<not> warm initial_state
   \<and> always_resolves (length (connect_calls initial_state)) = Inr 7
   \<and> connect_calls (snd (snd (connect_twice example_env always_resolves initial_state))) =
       [(Some ''mongodb://db.example/clinic'', the_connect_options)]"
  using cached_connection_is_reused
    [of warm_state 7 example_env always_resolves initial_state 7]
  by (simp add: warm_state_def initial_state_def warm_def always_resolves_def example_env_def)

section \<open>Paths that decode\<close>

lemma decodes_from_no_percent: "CHR ''%'' \<notin> set p \<Longrightarrow> decodes_from [] 0 p"
  by (induction p) auto

lemma decodes_from_drop:
  "CHR ''%'' \<notin> set (take n p) \<Longrightarrow> decodes_from [] 0 p = decodes_from [] 0 (drop n p)"
proof (induction p arbitrary: n)
  case Nil
  then show ?case by simp
next
  case (Cons c cs)
  show ?case
  proof (cases n)
    case 0
    then show ?thesis by simp
  next
    case (Suc m)
    with Cons.prems have "c \<noteq> CHR ''%''" and "CHR ''%'' \<notin> set (take m cs)"
      by auto
    with Cons.IH [of m] Suc show ?thesis by simp
  qed
qed

lemma lower_char_percent: "lower_char (CHR ''%'') = CHR ''%''"
  by code_simp

lemma no_percent_lower:
  assumes "CHR ''%'' \<notin> set (map lower_char p)"
  shows "CHR ''%'' \<notin> set p"
proof
  assume "CHR ''%'' \<in> set p"
  then have "lower_char (CHR ''%'') \<in> set (map lower_char p)"
    by simp
  with assms show False
    by (simp add: lower_char_percent)
qed

lemma decode_param_no_percent: "CHR ''%'' \<notin> set (map lower_char p) \<Longrightarrow> decode_param p = None"
  by (simp add: decode_param_def decodes_def decodes_from_no_percent no_percent_lower)

lemma decode_param_drop:
  assumes "take n (map lower_char p) = q" and "CHR ''%'' \<notin> set q" and "decode_param p = None"
  shows "decode_param (drop n p) = None"
proof (cases "p = []")
  case True
  then show ?thesis by (simp add: decode_param_def)
next
  case False
  have "CHR ''%'' \<notin> set (map lower_char (take n p))"
    using assms(1,2) by (simp add: take_map)
  then have "CHR ''%'' \<notin> set (take n p)"
    by (rule no_percent_lower)
  then have "decodes_from [] 0 p = decodes_from [] 0 (drop n p)"
    by (rule decodes_from_drop)
  moreover have "decodes p"
    using assms(3) False by (simp add: decode_param_def split: if_splits)
  ultimately show ?thesis
    by (simp add: decode_param_def decodes_def)
qed

lemma health_path_decodes:
  assumes "matches_route ''/api/health'' path"
  shows "decode_param path = None"
proof (rule decode_param_no_percent)
  show "CHR ''%'' \<notin> set (map lower_char path)"
    using assms by (auto simp: matches_route_def)
qed

lemma matches_api_catch_all_decoded:
  assumes "decode_param (req_path x r) = None"
  shows "matches_api_catch_all x r = Inr (matches_api_star (req_path x r))"
proof (cases "matches_api_star (req_path x r)")
  case True
  then have "take 5 (map lower_char (req_path x r)) = ''/api/''"
    by (simp add: matches_api_star_def)
  then have "decode_param (drop 5 (req_path x r)) = None"
    using decode_param_drop [of 5 "req_path x r" "''/api/''"] assms by simp
  with True show ?thesis
    by (simp add: matches_api_catch_all_def)
next
  case False
  then show ?thesis
    by (simp add: matches_api_catch_all_def)
qed

section \<open>How a request runs through the stack\<close>

lemma ran_after: "ran st res = after [st] res"
  by (simp add: ran_def after_def)

lemma after_after: "after a (after b res) = after (a @ b) res"
  by (simp add: after_def split: prod.splits)

lemma after_parts [simp]:
  "fst (after a res) = fst res"
  "fst (snd (after a res)) = fst (snd res)"
  "snd (snd (after a res)) = a @ snd (snd res)"
  by (simp_all add: after_def split: prod.splits)

lemma res_json_parts:
  "status (res_json r code obj) = code"
  "body (res_json r code obj) =
     (if req_method r = ''HEAD'' then EmptyBody else JsonBody (json_stringify obj))"
  by (simp_all add: res_json_def json_response_def)

lemma run_error_skips_groups:
  "run (map (group_layer x) ps @ rest) (Some e) r s = run rest (Some e) r s"
  by (induction ps) (simp_all add: group_layer_def)

lemma run_groups_no_match:
  "\<forall>p\<in>set ps. \<not> matches_mount p (req_path x r) \<Longrightarrow>
     run (map (group_layer x) ps @ rest) None r s = run rest None r s"
  by (induction ps) (simp_all add: group_layer_def)

lemma run_router_error:
  "run (router env x) (Some e) r s = (errorHandler x e r, s, [ErrorHandler])"
  by (simp add: router_def run_error_skips_groups error_sink_def continue_def ran_def)

lemma run_router_health:
  assumes "matches_route ''/api/health'' (req_path x r)" and "handles_get (req_method r)"
  shows "run (router env x) None r s =
     (res_json r 200 (health_object env (now x) s), s, [HealthRoute])"
  using assms by (simp add: router_def health_def continue_def ran_def)

lemma run_router_not_found:
  assumes "\<not> (matches_route ''/api/health'' (req_path x r) \<and> handles_get (req_method r))"
    and "\<forall>p\<in>set route_table. \<not> matches_mount p (req_path x r)"
    and "matches_api_star (req_path x r)"
    and "decode_param (req_path x r) = None"
  shows "run (router env x) None r s =
     (res_json r 404 (route_not_found_object r), s, [NotFoundHandler])"
proof -
  have "run (router env x) None r s =
      run (map (group_layer x) route_table
           @ [Use NotFoundHandler (matches_api_catch_all x) not_found,
              UseError ErrorHandler (error_sink x)]) None r s"
    using assms(1) by (auto simp: router_def)
  also have "\<dots> = run [Use NotFoundHandler (matches_api_catch_all x) not_found,
              UseError ErrorHandler (error_sink x)] None r s"
    using assms(2) by (rule run_groups_no_match)
  also have "\<dots> = (res_json r 404 (route_not_found_object r), s, [NotFoundHandler])"
    using assms(3) matches_api_catch_all_decoded [OF assms(4)]
    by (simp add: not_found_def continue_def ran_def)
  finally show ?thesis .
qed

lemma run_groups_state:
  assumes "\<And>err r. fst (snd (run rest err r s)) = s"
  shows "fst (snd (run (map (group_layer x) ps @ rest) err r s)) = s"
proof (induction ps arbitrary: err r)
  case Nil
  then show ?case by (simp add: assms)
next
  case (Cons p ps)
  show ?case
  proof (cases err)
    case None
    then show ?thesis
      using Cons
      by (cases "group x p r")
        (simp_all add: group_layer_def route_group_def continue_def ran_after)
  next
    case (Some e)
    then show ?thesis using Cons by (simp add: group_layer_def)
  qed
qed

lemma run_router_tail_state:
  "fst (snd (run [Use NotFoundHandler (matches_api_catch_all x) not_found,
                  UseError ErrorHandler (error_sink x)] err r s)) = s"
proof (cases err)
  case None
  then show ?thesis
    by (cases "matches_api_catch_all x r")
      (simp_all add: not_found_def error_sink_def continue_def ran_after)
next
  case (Some e)
  then show ?thesis
    by (simp add: error_sink_def continue_def ran_after)
qed

lemma run_router_state: "fst (snd (run (router env x) err r s)) = s"
proof -
  have groups: "fst (snd (run (map (group_layer x) route_table
           @ [Use NotFoundHandler (matches_api_catch_all x) not_found,
              UseError ErrorHandler (error_sink x)]) err r s)) = s" for err r
    by (rule run_groups_state) (rule run_router_tail_state)
  show ?thesis
    using groups [of err r]
    by (cases err) (simp_all add: router_def health_def continue_def ran_after)
qed

lemma guarded_fields [simp]:
  "req_method (guarded x r) = req_method r"
  "originalUrl (guarded x r) = originalUrl r"
  "body_parse (guarded x r) = body_parse r"
  "req_path x' (guarded x r) = req_path x' r"
  "query (guarded x r) = hpp_query hpp_defaults (arriving x r)"
  by (simp_all add: guarded_def req_path_def arriving_def)

lemma guarded_answers [simp]:
  "res_json (guarded x r) code obj = res_json r code obj"
  "route_not_found_object (guarded x r) = route_not_found_object r"
  by (simp_all add: res_json_def route_not_found_object_def)

lemma handle_request_options:
  "req_method r = ''OPTIONS'' \<Longrightarrow>
     handle_request env x s r = (\<lparr>status = 200, body = EmptyBody\<rparr>, s, [Cors])"
  by (simp add: handle_request_def app_def security_pipeline_def always_def cors_def
      the_cors_options_def continue_def ran_def)

lemma handle_request_undecodable:
  "req_method r \<noteq> ''OPTIONS'' \<Longrightarrow> decode_param (req_path x r) = Some e \<Longrightarrow>
     handle_request env x s r = (errorHandler x e r, s, [Cors, ErrorHandler])"
  by (simp add: handle_request_def app_def security_pipeline_def always_def cors_def continue_def
      ran_after matches_star_options_def run_router_error after_def)

lemma handle_request_json_fails:
  "req_method r \<noteq> ''OPTIONS'' \<Longrightarrow> decode_param (req_path x r) = None \<Longrightarrow>
     body_parse r = JsonFails e \<Longrightarrow>
     handle_request env x s r =
       (errorHandler x e r, s, [Cors, Helmet, JsonParser, ErrorHandler])"
  by (simp add: handle_request_def app_def security_pipeline_def always_def cors_def continue_def
      ran_after after_after pass_def json_parser_def matches_star_options_def run_router_error
      after_def)

lemma handle_request_urlencoded_fails:
  "req_method r \<noteq> ''OPTIONS'' \<Longrightarrow> decode_param (req_path x r) = None \<Longrightarrow>
     body_parse r = UrlencodedFails e \<Longrightarrow>
     handle_request env x s r =
       (errorHandler x e r, s, [Cors, Helmet, JsonParser, UrlencodedParser, ErrorHandler])"
  by (simp add: handle_request_def app_def security_pipeline_def always_def cors_def continue_def
      ran_after after_after pass_def json_parser_def urlencoded_parser_def
      matches_star_options_def run_router_error after_def)

lemma handle_request_at_gate:
  "reaches_gate x r \<Longrightarrow>
     handle_request env x s r =
       (case connectToDatabase env (connect_answer x) s of
          (Inr db, s1) \<Rightarrow> after pre_gate (run (router env x) None (guarded x r) s1)
        | (Inl error, s1) \<Rightarrow>
            (res_json r 500 (connection_failed_object env error),
             console_error ''Database connection middleware error:'' error s1,
             pre_gate))"
  by (simp add: handle_request_def app_def reaches_gate_def security_pipeline_def always_def
      cors_def continue_def ran_after after_after pass_def json_parser_def urlencoded_parser_def
      sanitizer_def hpp_def connection_gate_def guarded_def pre_gate_def after_def
      matches_star_options_def res_json_def
      split: prod.splits sum.splits)

lemma handle_request_gate_open:
  assumes "reaches_gate x r" and "fst (connectToDatabase env (connect_answer x) s) = Inr db"
  shows "handle_request env x s r =
     after pre_gate
       (run (router env x) None (guarded x r) (snd (connectToDatabase env (connect_answer x) s)))"
  using assms by (cases "connectToDatabase env (connect_answer x) s") (simp add: handle_request_at_gate)

lemma handle_request_gate_shut:
  assumes "reaches_gate x r" and "fst (connectToDatabase env (connect_answer x) s) = Inl error"
  shows "handle_request env x s r =
     (res_json r 500 (connection_failed_object env error),
      console_error ''Database connection middleware error:'' error
        (snd (connectToDatabase env (connect_answer x) s)),
      pre_gate)"
  using assms by (cases "connectToDatabase env (connect_answer x) s") (simp add: handle_request_at_gate)

lemma request_cases:
  obtains (preflight) "req_method r = ''OPTIONS''"
  | (undecodable) e where "req_method r \<noteq> ''OPTIONS''" and "decode_param (req_path x r) = Some e"
  | (json) e where "req_method r \<noteq> ''OPTIONS''" and "decode_param (req_path x r) = None"
      and "body_parse r = JsonFails e"
  | (urlencoded) e where "req_method r \<noteq> ''OPTIONS''" and "decode_param (req_path x r) = None"
      and "body_parse r = UrlencodedFails e"
  | (gate) "reaches_gate x r"
  by (cases "body_parse r"; cases "decode_param (req_path x r)") (auto simp: reaches_gate_def)

lemma handle_request_stopped:
  assumes "\<not> reaches_gate x r"
  shows "fst (snd (handle_request env x s r)) = s"
    and "ConnectionGate \<notin> set (snd (snd (handle_request env x s r)))"
    and "list_all (\<lambda>st. \<not> route_handler st) (snd (snd (handle_request env x s r)))"
proof -
  have "fst (snd (handle_request env x s r)) = s
      \<and> ConnectionGate \<notin> set (snd (snd (handle_request env x s r)))
      \<and> list_all (\<lambda>st. \<not> route_handler st) (snd (snd (handle_request env x s r)))"
  proof (cases rule: request_cases [where r = r and x = x])
    case preflight
    then show ?thesis by (simp add: handle_request_options route_handler_def)
  next
    case (undecodable e)
    then show ?thesis by (simp add: handle_request_undecodable route_handler_def)
  next
    case (json e)
    then show ?thesis by (simp add: handle_request_json_fails route_handler_def)
  next
    case (urlencoded e)
    then show ?thesis by (simp add: handle_request_urlencoded_fails route_handler_def)
  next
    case gate
    with assms show ?thesis by simp
  qed
  then show "fst (snd (handle_request env x s r)) = s"
    and "ConnectionGate \<notin> set (snd (snd (handle_request env x s r)))"
    and "list_all (\<lambda>st. \<not> route_handler st) (snd (snd (handle_request env x s r)))"
    by simp_all
qed

lemma connection_failed_object_json:
  "json_stringify (connection_failed_object env error) =
     [(''status'', JStr ''error''), (''message'', JStr ''Database connection failed'')]
     @ (if NODE_ENV env = Some ''development'' then [(''error'', JStr (message error))] else [])"
  by (simp add: connection_failed_object_def json_stringify_def)


lemma pre_gate_no_route_handler: "list_all (\<lambda>st. \<not> route_handler st) pre_gate"
  by (simp add: pre_gate_def route_handler_def)

lemma gated_after_pre_gate: "gated (pre_gate @ trace)"
  by (simp add: gated_def pre_gate_def route_handler_def)

lemma gated_no_route_handler:
  assumes "list_all (\<lambda>st. \<not> route_handler st) trace"
  shows "gated trace"
  using assms by (auto simp: gated_def list_all_iff dest: set_takeWhileD)

lemma handle_request_gated: "gated (snd (snd (handle_request env x s r)))"
proof (cases "reaches_gate x r")
  case False
  then show ?thesis
    by (intro gated_no_route_handler handle_request_stopped)
next
  case True
  show ?thesis
  proof (cases "fst (connectToDatabase env (connect_answer x) s)")
    case (Inl error)
    with True show ?thesis
      using gated_after_pre_gate [of "[]"] by (simp add: handle_request_gate_shut)
  next
    case (Inr db)
    with True show ?thesis
      by (simp add: handle_request_gate_open gated_after_pre_gate)
  qed
qed

lemma run_router_unmatched:
  assumes "\<not> (matches_route ''/api/health'' (req_path x r) \<and> handles_get (req_method r))"
    and "\<not> in_route_table (req_path x r)"
    and "matches_api_star (req_path x r)"
    and "decode_param (req_path x r) = None"
  shows "run (router env x) None r s =
     (res_json r 404 (route_not_found_object r), s, [NotFoundHandler])"
  using assms by (intro run_router_not_found) (simp_all add: in_route_table_def list_ex_iff)

lemma health_path:
  assumes "matches_route ''/api/health'' path"
  shows "\<not> in_route_table path" and "matches_api_star path"
  using assms
  by (auto simp: matches_route_def matches_mount_def route_table_def in_route_table_def
      matches_api_star_def)

lemma route_not_found_object_json:
  "json_stringify (route_not_found_object r) =
     [(''status'', JStr ''error''),
      (''message'', JStr (''API route '' @ originalUrl r @ '' not found''))]"
  by (simp add: route_not_found_object_def json_stringify_def)

lemma handle_request_unmatched:
  assumes "reaches_gate x r" and "fst (connectToDatabase env (connect_answer x) s) = Inr db"
    and "matches_api_star (req_path x r)" and "\<not> in_route_table (req_path x r)"
    and "\<not> (matches_route ''/api/health'' (req_path x r) \<and> handles_get (req_method r))"
  shows "handle_request env x s r =
     (res_json r 404 (route_not_found_object r),
      snd (connectToDatabase env (connect_answer x) s),
      pre_gate @ [NotFoundHandler])"
proof -
  have "decode_param (req_path x r) = None"
    using assms(1) by (simp add: reaches_gate_def)
  then have "run (router env x) None (guarded x r)
        (snd (connectToDatabase env (connect_answer x) s)) =
      (res_json r 404 (route_not_found_object r),
       snd (connectToDatabase env (connect_answer x) s), [NotFoundHandler])"
    using run_router_unmatched [where x = x and r = "guarded x r" and env = env] assms(3,4,5)
    by simp
  then show ?thesis
    using handle_request_gate_open [OF assms(1,2)] by (simp add: after_def)
qed

lemma connect_up_cold:
  "connectToDatabase example_env always_resolves initial_state =
     (Inr 7,
      \<lparr>cachedDb = Some 7, readyState = 1, strictQuery = Some False,
       connect_calls = [(Some ''mongodb://db.example/clinic'', the_connect_options)],
       console = [Log ''Creating new database connection...'',
                  Log ''MongoDB Connected Successfully'']\<rparr>)"
  by (simp add: connectToDatabase_def initial_state_def always_resolves_def example_env_def
      mongoose_connect_def console_log_def Let_def)

lemma connect_down_cold:
  "connectToDatabase example_env always_rejects initial_state =
     (Inl \<lparr>message = ''connect ECONNREFUSED'', statusCode = None\<rparr>,
      \<lparr>cachedDb = None, readyState = 0, strictQuery = Some False,
       connect_calls = [(Some ''mongodb://db.example/clinic'', the_connect_options)],
       console = [Log ''Creating new database connection...'',
                  LogError ''MongoDB connection error:''
                    \<lparr>message = ''connect ECONNREFUSED'', statusCode = None\<rparr>]\<rparr>)"
  by (simp add: connectToDatabase_def initial_state_def always_rejects_def example_env_def
      mongoose_connect_def console_log_def console_error_def Let_def)

lemma example_request_fields [simp]:
  "req_method (example_request m url) = m"
  "originalUrl (example_request m url) = url"
  "body_parse (example_request m url) = BodyOk"
  by (simp_all add: example_request_def)

lemma world_fields [simp]:
  "connect_answer world_up = always_resolves"
  "connect_answer world_down = always_rejects"
  "now world_up = 1700000000000"
  "errorHandler world_up = example_errorHandler"
  "errorHandler world_down = example_errorHandler"
  "mongoSanitize world_up = unchanged"
  "xss world_up = unchanged"
  by (simp_all add: world_up_def world_down_def)

lemma example_paths:
  "req_path x (example_request m ''/api/health'') = ''/api/health''"
  "req_path x (example_request m ''/api/patients'') = ''/api/patients''"
  "req_path x (example_request m ''/api/nope'') = ''/api/nope''"
  "req_path x (example_request m ''/api/nope?x=1'') = ''/api/nope''"
  "req_path x (example_request m ''/api/%zz'') = ''/api/%zz''"
  "req_path x polluted_request = ''/api/patients''"
  "req_path x nested_request = ''/api/patients''"
  by (simp_all add: req_path_def fast_path_def parse_triggers_def polluted_request_def
      nested_request_def)

lemma example_decodes:
  "decode_param ''/api/health'' = None"
  "decode_param ''/api/patients'' = None"
  "decode_param ''/api/nope'' = None"
  "decode_param ''/api/%zz'' = Some (decode_error ''/api/%zz'')"
  by code_simp+

lemma example_reaches_gate:
  "reaches_gate x (example_request m ''/api/health'') = (m \<noteq> ''OPTIONS'')"
  "reaches_gate x (example_request m ''/api/patients'') = (m \<noteq> ''OPTIONS'')"
  "reaches_gate x (example_request m ''/api/nope'') = (m \<noteq> ''OPTIONS'')"
  "reaches_gate x (example_request m ''/api/nope?x=1'') = (m \<noteq> ''OPTIONS'')"
  "\<not> reaches_gate x (example_request m ''/api/%zz'')"
  "reaches_gate x polluted_request"
  "reaches_gate x nested_request"
  by (simp_all add: reaches_gate_def example_paths example_decodes)
    (simp_all add: polluted_request_def nested_request_def)

lemma nope_unmatched:
  "matches_api_star ''/api/nope''" "\<not> in_route_table ''/api/nope''"
  "\<not> matches_route ''/api/health'' ''/api/nope''"
  by code_simp+

lemma undecodable_unmatched:
  "matches_api_star ''/api/%zz''" "\<not> in_route_table ''/api/%zz''"
  "\<not> matches_route ''/api/health'' ''/api/%zz''"
  by code_simp+

lemma health_matches: "matches_route ''/api/health'' ''/api/health''"
  by code_simp

lemma example_env_fields [simp]:
  "NODE_ENV example_env = None"
  "MONGODB_URI example_env = Some ''mongodb://db.example/clinic''"
  by (simp_all add: example_env_def)

lemma handle_request_example_down:
  assumes "reaches_gate world_down r"
  shows "handle_request example_env world_down initial_state r =
     (res_json r 500
        [(''status'', JStr ''error''), (''message'', JStr ''Database connection failed''),
         (''error'', JUndefined)],
      console_error ''Database connection middleware error:''
        \<lparr>message = ''connect ECONNREFUSED'', statusCode = None\<rparr>
        (snd (connectToDatabase example_env always_rejects initial_state)),
      pre_gate)"
  using handle_request_gate_shut
    [of world_down r example_env initial_state
        "\<lparr>message = ''connect ECONNREFUSED'', statusCode = None\<rparr>"] assms
  by (simp add: connect_down_cold connection_failed_object_def)

lemma decode_error_example:
  "example_errorHandler (decode_error ''/api/%zz'') r =
     \<lparr>status = 400, body = OtherBody (message (decode_error ''/api/%zz''))\<rparr>"
  by (simp add: example_errorHandler_def decode_error_def)

lemma handle_request_example_undecodable:
  "handle_request example_env world_down initial_state (example_request ''GET'' ''/api/%zz'') =
     (\<lparr>status = 400, body = OtherBody (message (decode_error ''/api/%zz''))\<rparr>,
      initial_state, [Cors, ErrorHandler])"
  using handle_request_undecodable
    [of "example_request ''GET'' ''/api/%zz''" world_down "decode_error ''/api/%zz''"
        example_env initial_state]
  by (simp add: example_paths example_decodes decode_error_example)

text \<open>
  C1, as amended. No route handler (the health route included) runs unless the
  connection gate ran before it. Every request that reaches the gate, that is every request
  but a preflight \<^verbatim>\<open>OPTIONS\<close>, one whose path does not decode and one whose body a parser
  rejects, goes through \<^verbatim>\<open>connectToDatabase\<close> before the router: when it returns, the
  router runs in the state it left; when it throws, the answer is status 500, no route
  handler has run, and the body is \<^verbatim>\<open>status: 'error'\<close> and
  \<^verbatim>\<open>message: 'Database connection failed'\<close>, the \<^verbatim>\<open>error\<close> field holding the error's
  message exactly when \<^verbatim>\<open>NODE_ENV\<close> is \<^verbatim>\<open>development\<close> and absent otherwise; a
  \<^verbatim>\<open>HEAD\<close> request gets the status and no body.
\<close>

theorem gate_before_routes:
  "gated (snd (snd (handle_request env x s r)))
   \<and> (reaches_gate x r \<longrightarrow>
       (case connectToDatabase env (connect_answer x) s of
          (Inr db, s1) \<Rightarrow>
            handle_request env x s r = after pre_gate (run (router env x) None (guarded x r) s1)
        | (Inl error, s1) \<Rightarrow>
            handle_request env x s r =
              (\<lparr>status = 500,
                body =
                  (if req_method r = ''HEAD'' then EmptyBody
                   else JsonBody ([(''status'', JStr ''error''),
                                   (''message'', JStr ''Database connection failed'')]
                                  @ (if NODE_ENV env = Some ''development''
                                     then [(''error'', JStr (message error))] else [])))\<rparr>,
               console_error ''Database connection middleware error:'' error s1,
               pre_gate)
            \<and> list_all (\<lambda>st. \<not> route_handler st) pre_gate))"
proof (intro conjI impI)
  show "gated (snd (snd (handle_request env x s r)))"
    by (rule handle_request_gated)
next
  assume "reaches_gate x r"
  then show "case connectToDatabase env (connect_answer x) s of
          (Inr db, s1) \<Rightarrow>
            handle_request env x s r = after pre_gate (run (router env x) None (guarded x r) s1)
        | (Inl error, s1) \<Rightarrow>
            handle_request env x s r =
              (\<lparr>status = 500,
                body =
                  (if req_method r = ''HEAD'' then EmptyBody
                   else JsonBody ([(''status'', JStr ''error''),
                                   (''message'', JStr ''Database connection failed'')]
                                  @ (if NODE_ENV env = Some ''development''
                                     then [(''error'', JStr (message error))] else [])))\<rparr>,
               console_error ''Database connection middleware error:'' error s1,
               pre_gate)
            \<and> list_all (\<lambda>st. \<not> route_handler st) pre_gate"
    by (simp add: handle_request_at_gate res_json_def json_response_def
        connection_failed_object_json pre_gate_no_route_handler split: prod.splits sum.splits)
qed

theorem gate_before_routes_witness:
  "reaches_gate world_down (example_request ''GET'' ''/api/health'')
   \<and> fst (handle_request example_env world_down initial_state (example_request ''GET'' ''/api/health''))
       = \<lparr>status = 500,
          body = JsonBody [(''status'', JStr ''error''),
                           (''message'', JStr ''Database connection failed'')]\<rparr>
   \<and> snd (snd (handle_request example_env world_down initial_state
        (example_request ''GET'' ''/api/health''))) = pre_gate"
  using gate_before_routes
    [of example_env world_down initial_state "example_request ''GET'' ''/api/health''"]
  by (simp add: connect_down_cold example_reaches_gate)

text \<open>
  The statement of C1 for every incoming request fails on three requests made while the
  connect would be rejected. A preflight is answered with status 200 by the CORS layer and
  \<^verbatim>\<open>GET /api/%zz\<close>, whose path does not decode, is answered by the error handler with the
  status 400 of the error: for neither does the gate run, and \<^verbatim>\<open>connectToDatabase\<close> is not
  called (the state of the process is untouched). \<^verbatim>\<open>HEAD /api/health\<close> is answered by the
  gate with status 500 and no body.
\<close>

theorem preflight_bypasses_gate:
  "fst (connectToDatabase example_env (connect_answer world_down) initial_state) =
     Inl \<lparr>message = ''connect ECONNREFUSED'', statusCode = None\<rparr>
   \<and> handle_request example_env world_down initial_state (example_request ''OPTIONS'' ''/api/health'')
       = (\<lparr>status = 200, body = EmptyBody\<rparr>, initial_state, [Cors])
   \<and> handle_request example_env world_down initial_state (example_request ''GET'' ''/api/%zz'')
       = (\<lparr>status = 400, body = OtherBody (message (decode_error ''/api/%zz''))\<rparr>,
          initial_state, [Cors, ErrorHandler])
   \<and> fst (handle_request example_env world_down initial_state (example_request ''HEAD'' ''/api/health''))
       = \<lparr>status = 500, body = EmptyBody\<rparr>"
  by (simp add: connect_down_cold handle_request_options handle_request_example_undecodable
      handle_request_example_down example_reaches_gate res_json_def)

text \<open>
  C5. A request with method \<^verbatim>\<open>OPTIONS\<close> is answered with status 200 and an empty body;
  the only stage that runs is the CORS layer, and the state of the process is untouched: the
  request reaches neither the connection gate nor the router.
\<close>

theorem preflight_short_circuit:
  "req_method r = ''OPTIONS'' \<longrightarrow>
     handle_request env x s r = (\<lparr>status = 200, body = EmptyBody\<rparr>, s, [Cors])"
  by (simp add: handle_request_options)

theorem preflight_short_circuit_witness:
  "req_method (example_request ''OPTIONS'' ''/api/patients'') = ''OPTIONS''
   \<and> handle_request example_env world_up warm_state (example_request ''OPTIONS'' ''/api/patients'')
       = (\<lparr>status = 200, body = EmptyBody\<rparr>, warm_state, [Cors])"
  using preflight_short_circuit
    [of "example_request ''OPTIONS'' ''/api/patients''" example_env world_up warm_state]
  by simp

text \<open>
  C6, as amended. For every request that reaches the router (it is not a preflight, its
  path decodes, its body parses and \<^verbatim>\<open>connectToDatabase\<close> returned), whose path begins
  with \<^verbatim>\<open>/api/\<close>, matches no entry of the route table and is not served by the health
  route, the response has status 404 and the body
  \<^verbatim>\<open>{status: 'error', message: 'API route <url> not found'}\<close>, where \<^verbatim>\<open><url>\<close> is
  \<^verbatim>\<open>req.originalUrl\<close>: the request target as received, with the query string when there is
  one; a \<^verbatim>\<open>HEAD\<close> request gets the status and no body.
\<close>

theorem unmatched_api_route_not_found:
  "reaches_gate x r
   \<and> fst (connectToDatabase env (connect_answer x) s) = Inr db
   \<and> matches_api_star (req_path x r)
   \<and> \<not> in_route_table (req_path x r)
   \<and> \<not> (matches_route ''/api/health'' (req_path x r) \<and> handles_get (req_method r))
   \<longrightarrow>
     handle_request env x s r =
       (\<lparr>status = 404,
         body =
           (if req_method r = ''HEAD'' then EmptyBody
            else JsonBody [(''status'', JStr ''error''),
                           (''message'', JStr (''API route '' @ originalUrl r @ '' not found''))])\<rparr>,
        snd (connectToDatabase env (connect_answer x) s),
        pre_gate @ [NotFoundHandler])"
proof (intro impI, elim conjE)
  assume "reaches_gate x r" and "fst (connectToDatabase env (connect_answer x) s) = Inr db"
    and "matches_api_star (req_path x r)" and "\<not> in_route_table (req_path x r)"
    and "\<not> (matches_route ''/api/health'' (req_path x r) \<and> handles_get (req_method r))"
  then have "handle_request env x s r =
     (res_json r 404 (route_not_found_object r),
      snd (connectToDatabase env (connect_answer x) s),
      pre_gate @ [NotFoundHandler])"
    by (rule handle_request_unmatched)
  then show "handle_request env x s r =
       (\<lparr>status = 404,
         body =
           (if req_method r = ''HEAD'' then EmptyBody
            else JsonBody [(''status'', JStr ''error''),
                           (''message'', JStr (''API route '' @ originalUrl r @ '' not found''))])\<rparr>,
        snd (connectToDatabase env (connect_answer x) s),
        pre_gate @ [NotFoundHandler])"
    by (simp add: res_json_def json_response_def route_not_found_object_json)
qed

theorem unmatched_api_route_not_found_witness:
  "reaches_gate world_up (example_request ''GET'' ''/api/nope'')
   \<and> fst (connectToDatabase example_env (connect_answer world_up) initial_state) = Inr 7
   \<and> matches_api_star (req_path world_up (example_request ''GET'' ''/api/nope''))
   \<and> \<not> in_route_table (req_path world_up (example_request ''GET'' ''/api/nope''))
   \<and> \<not> matches_route ''/api/health'' (req_path world_up (example_request ''GET'' ''/api/nope''))
   \<and> fst (handle_request example_env world_up initial_state (example_request ''GET'' ''/api/nope''))
       = \<lparr>status = 404,
          body = JsonBody [(''status'', JStr ''error''),
                           (''message'', JStr ''API route /api/nope not found'')]\<rparr>"
  using unmatched_api_route_not_found
    [of world_up "example_request ''GET'' ''/api/nope''" example_env initial_state 7]
  by (simp add: connect_up_cold example_paths nope_unmatched example_reaches_gate)

text \<open>
  The statement of C6 for every such request fails in four ways. When the connect is
  rejected, the unmatched \<^verbatim>\<open>GET /api/nope\<close> is answered with status 500 by the gate. For
  \<^verbatim>\<open>GET /api/nope?x=1\<close>, whose path is \<^verbatim>\<open>/api/nope\<close>, the message holds the whole
  \<^verbatim>\<open>/api/nope?x=1\<close>. \<^verbatim>\<open>HEAD /api/nope\<close> is answered with status 404 and no body. And
  \<^verbatim>\<open>GET /api/%zz\<close>, whose path begins with \<^verbatim>\<open>/api/\<close> and matches no entry, is answered
  with status 400, for the path does not decode.
\<close>

theorem unmatched_api_route_other_answers:
  "matches_api_star (req_path world_down (example_request ''GET'' ''/api/nope''))
   \<and> \<not> in_route_table (req_path world_down (example_request ''GET'' ''/api/nope''))
   \<and> \<not> matches_route ''/api/health'' (req_path world_down (example_request ''GET'' ''/api/nope''))
   \<and> status (fst (handle_request example_env world_down initial_state
        (example_request ''GET'' ''/api/nope''))) = 500
   \<and> req_path world_up (example_request ''GET'' ''/api/nope?x=1'') = ''/api/nope''
   \<and> body (fst (handle_request example_env world_up initial_state
        (example_request ''GET'' ''/api/nope?x=1'')))
       = JsonBody [(''status'', JStr ''error''),
                   (''message'', JStr ''API route /api/nope?x=1 not found'')]
   \<and> fst (handle_request example_env world_up initial_state (example_request ''HEAD'' ''/api/nope''))
       = \<lparr>status = 404, body = EmptyBody\<rparr>
   \<and> matches_api_star (req_path world_up (example_request ''GET'' ''/api/%zz''))
   \<and> \<not> in_route_table (req_path world_up (example_request ''GET'' ''/api/%zz''))
   \<and> \<not> matches_route ''/api/health'' (req_path world_up (example_request ''GET'' ''/api/%zz''))
   \<and> handle_request example_env world_up initial_state (example_request ''GET'' ''/api/%zz'')
       = (\<lparr>status = 400, body = OtherBody (message (decode_error ''/api/%zz''))\<rparr>,
          initial_state, [Cors, ErrorHandler])"
proof -
  have query: "handle_request example_env world_up initial_state
        (example_request ''GET'' ''/api/nope?x=1'')
      = (res_json (example_request ''GET'' ''/api/nope?x=1'') 404
           (route_not_found_object (example_request ''GET'' ''/api/nope?x=1'')),
         snd (connectToDatabase example_env (connect_answer world_up) initial_state),
         pre_gate @ [NotFoundHandler])"
    by (rule handle_request_unmatched [where db = 7])
      (simp_all add: connect_up_cold example_paths nope_unmatched example_reaches_gate)
  have head: "handle_request example_env world_up initial_state
        (example_request ''HEAD'' ''/api/nope'')
      = (res_json (example_request ''HEAD'' ''/api/nope'') 404
           (route_not_found_object (example_request ''HEAD'' ''/api/nope'')),
         snd (connectToDatabase example_env (connect_answer world_up) initial_state),
         pre_gate @ [NotFoundHandler])"
    by (rule handle_request_unmatched [where db = 7])
      (simp_all add: connect_up_cold example_paths nope_unmatched example_reaches_gate)
  have undecodable: "handle_request example_env world_up initial_state
        (example_request ''GET'' ''/api/%zz'')
      = (\<lparr>status = 400, body = OtherBody (message (decode_error ''/api/%zz''))\<rparr>,
         initial_state, [Cors, ErrorHandler])"
    using handle_request_undecodable
      [of "example_request ''GET'' ''/api/%zz''" world_up "decode_error ''/api/%zz''"
          example_env initial_state]
    by (simp add: example_paths example_decodes decode_error_example)
  show ?thesis
    by (simp add: query head undecodable handle_request_example_down example_reaches_gate
        example_paths nope_unmatched undecodable_unmatched res_json_parts
        route_not_found_object_json)
qed

lemma handle_request_state:
  "fst (snd (handle_request env x s r)) =
     (if reaches_gate x r
      then (case connectToDatabase env (connect_answer x) s of
              (Inr db, s1) \<Rightarrow> s1
            | (Inl error, s1) \<Rightarrow>
                console_error ''Database connection middleware error:'' error s1)
      else s)"
proof (cases "reaches_gate x r")
  case False
  then show ?thesis by (simp add: handle_request_stopped)
next
  case True
  then show ?thesis
    by (simp add: handle_request_at_gate run_router_state split: prod.splits sum.splits)
qed

lemma handle_request_gate_state:
  "cachedDb (fst (snd (handle_request env x s r))) =
     (if reaches_gate x r then cachedDb (snd (connectToDatabase env (connect_answer x) s))
      else cachedDb s)"
  "readyState (fst (snd (handle_request env x s r))) =
     (if reaches_gate x r then readyState (snd (connectToDatabase env (connect_answer x) s))
      else readyState s)"
  "connect_calls (fst (snd (handle_request env x s r))) =
     (if reaches_gate x r then connect_calls (snd (connectToDatabase env (connect_answer x) s))
      else connect_calls s)"
  by (simp_all add: handle_request_state split: prod.splits sum.splits)

lemma warm_after_request:
  "reaches_gate x r \<Longrightarrow>
     warm (fst (snd (handle_request env x s r))) =
       warm (snd (connectToDatabase env (connect_answer x) s))"
  by (simp add: warm_def handle_request_gate_state)

lemma rejected_connect:
  assumes "\<not> warm s" and "answer (length (connect_calls s)) = Inl e"
  shows "fst (connectToDatabase env answer s) = Inl e"
    and "cachedDb (snd (connectToDatabase env answer s)) = cachedDb s"
    and "connect_calls (snd (connectToDatabase env answer s)) =
           connect_calls s @ [(MONGODB_URI env, the_connect_options)]"
    and "\<not> warm (snd (connectToDatabase env answer s))"
  using connectToDatabase_cold_rejected(1,2,4) [of s answer e env]
    connectToDatabase_not_warm_after_rejection [of s answer e env] assms
  by simp_all

lemma serve_after_rejection:
  assumes "\<not> warm s" and "connect_answer x (length (connect_calls s)) = Inl e"
    and "reaches_gate x r"
  shows "connect_calls (serve env x s [r, r']) =
     connect_calls s @ [(MONGODB_URI env, the_connect_options)]
     @ (if reaches_gate x r' then [(MONGODB_URI env, the_connect_options)] else [])"
proof -
  let ?s1 = "fst (snd (handle_request env x s r))"
  have s1: "\<not> warm ?s1"
    using assms rejected_connect(4) [of s "connect_answer x" e env]
    by (simp add: warm_after_request)
  have calls1: "connect_calls ?s1 = connect_calls s @ [(MONGODB_URI env, the_connect_options)]"
    using assms rejected_connect(3) [of s "connect_answer x" e env]
    by (simp add: handle_request_gate_state)
  have "connect_calls (fst (snd (handle_request env x ?s1 r'))) =
      (if reaches_gate x r' then connect_calls (snd (connectToDatabase env (connect_answer x) ?s1))
       else connect_calls ?s1)"
    by (rule handle_request_gate_state)
  then show ?thesis
    using s1 calls1 by (simp add: connectToDatabase_calls)
qed

text \<open>
  C4, as amended. When \<^verbatim>\<open>connectToDatabase\<close> calls \<^verbatim>\<open>mongoose.connect\<close> and the call
  is rejected with an error, the function throws that error and leaves \<^verbatim>\<open>cachedDb\<close> as it
  was; the state it leaves does not pass the test of line 54, so the next call of
  \<^verbatim>\<open>connectToDatabase\<close> calls \<^verbatim>\<open>mongoose.connect\<close> again. For requests: when the connect
  of a request that reaches the gate is rejected, the request is answered by the gate with
  status 500, \<^verbatim>\<open>cachedDb\<close> is as before, and the request that follows makes a new call
  exactly when it reaches the gate.
\<close>

theorem failed_connection_is_not_cached:
  "(\<not> warm s \<and> answer (length (connect_calls s)) = Inl e \<longrightarrow>
      fst (connectToDatabase env answer s) = Inl e
      \<and> cachedDb (snd (connectToDatabase env answer s)) = cachedDb s
      \<and> connect_calls (snd (connectToDatabase env answer s)) =
          connect_calls s @ [(MONGODB_URI env, the_connect_options)]
      \<and> \<not> warm (snd (connectToDatabase env answer s))
      \<and> connect_calls (snd (connectToDatabase env answer (snd (connectToDatabase env answer s)))) =
          connect_calls s @ [(MONGODB_URI env, the_connect_options),
                             (MONGODB_URI env, the_connect_options)])
   \<and> (\<not> warm s \<and> connect_answer x (length (connect_calls s)) = Inl e \<and> reaches_gate x r \<longrightarrow>
      fst (handle_request env x s r) = res_json r 500 (connection_failed_object env e)
      \<and> status (fst (handle_request env x s r)) = 500
      \<and> cachedDb (serve env x s [r]) = cachedDb s
      \<and> connect_calls (serve env x s [r, r']) =
          connect_calls s @ [(MONGODB_URI env, the_connect_options)]
          @ (if reaches_gate x r' then [(MONGODB_URI env, the_connect_options)] else []))"
proof (intro conjI impI)
  assume h: "\<not> warm s \<and> answer (length (connect_calls s)) = Inl e"
  let ?s1 = "snd (connectToDatabase env answer s)"
  show "fst (connectToDatabase env answer s) = Inl e"
    and "cachedDb ?s1 = cachedDb s"
    and calls: "connect_calls ?s1 = connect_calls s @ [(MONGODB_URI env, the_connect_options)]"
    and still: "\<not> warm ?s1"
    using h rejected_connect [of s answer e env] by simp_all
  show "connect_calls (snd (connectToDatabase env answer ?s1)) =
          connect_calls s @ [(MONGODB_URI env, the_connect_options),
                             (MONGODB_URI env, the_connect_options)]"
    using still calls by (simp add: connectToDatabase_calls)
next
  assume h: "\<not> warm s \<and> connect_answer x (length (connect_calls s)) = Inl e \<and> reaches_gate x r"
  then have f: "fst (connectToDatabase env (connect_answer x) s) = Inl e"
    and c: "cachedDb (snd (connectToDatabase env (connect_answer x) s)) = cachedDb s"
    using rejected_connect(1,2) [of s "connect_answer x" e env] by simp_all
  from h f show answer: "fst (handle_request env x s r) = res_json r 500 (connection_failed_object env e)"
    by (simp add: handle_request_gate_shut [where error = e])
  then show "status (fst (handle_request env x s r)) = 500"
    by (simp add: res_json_parts)
  from h c show "cachedDb (serve env x s [r]) = cachedDb s"
    by (simp add: handle_request_gate_state)
  from h have "\<not> warm s" and "connect_answer x (length (connect_calls s)) = Inl e"
    and "reaches_gate x r"
    by simp_all
  then show "connect_calls (serve env x s [r, r']) =
          connect_calls s @ [(MONGODB_URI env, the_connect_options)]
          @ (if reaches_gate x r' then [(MONGODB_URI env, the_connect_options)] else [])"
    by (rule serve_after_rejection)
qed

theorem failed_connection_is_not_cached_witness:
  "\<not> warm initial_state
   \<and> always_rejects (length (connect_calls initial_state)) =
       Inl \<lparr>message = ''connect ECONNREFUSED'', statusCode = None\<rparr>
   \<and> reaches_gate world_down (example_request ''GET'' ''/api/health'')
   \<and> reaches_gate world_down (example_request ''GET'' ''/api/patients'')
   \<and> fst (connectToDatabase example_env always_rejects initial_state) =
       Inl \<lparr>message = ''connect ECONNREFUSED'', statusCode = None\<rparr>
   \<and> cachedDb (snd (connectToDatabase example_env always_rejects initial_state)) = None
   \<and> status (fst (handle_request example_env world_down initial_state
        (example_request ''GET'' ''/api/health''))) = 500
   \<and> connect_calls (serve example_env world_down initial_state
        [example_request ''GET'' ''/api/health'', example_request ''GET'' ''/api/patients'']) =
       [(Some ''mongodb://db.example/clinic'', the_connect_options),
        (Some ''mongodb://db.example/clinic'', the_connect_options)]"
  using failed_connection_is_not_cached
    [of initial_state always_rejects "\<lparr>message = ''connect ECONNREFUSED'', statusCode = None\<rparr>"
        example_env world_down "example_request ''GET'' ''/api/health''"
        "example_request ''GET'' ''/api/patients''"]
  by (simp add: initial_state_def warm_def always_rejects_def example_reaches_gate res_json_parts)

text \<open>
  The statement of C4 for any subsequent request fails on a preflight: after
  \<^verbatim>\<open>GET /api/health\<close> has been answered with status 500 because the connect was rejected,
  \<^verbatim>\<open>OPTIONS /api/health\<close> is answered by the CORS layer, and \<^verbatim>\<open>mongoose.connect\<close> has
  been called once, not twice.
\<close>

theorem preflight_makes_no_fresh_attempt:
  "status (fst (handle_request example_env world_down initial_state
      (example_request ''GET'' ''/api/health''))) = 500
   \<and> connect_calls (serve example_env world_down initial_state [example_request ''GET'' ''/api/health''])
       = [(Some ''mongodb://db.example/clinic'', the_connect_options)]
   \<and> connect_calls (serve example_env world_down initial_state
        [example_request ''GET'' ''/api/health'', example_request ''OPTIONS'' ''/api/health''])
       = [(Some ''mongodb://db.example/clinic'', the_connect_options)]"
proof -
  have "connect_calls (serve example_env world_down initial_state
        [example_request ''GET'' ''/api/health'', example_request ''OPTIONS'' ''/api/health''])
      = connect_calls initial_state @ [(MONGODB_URI example_env, the_connect_options)]
        @ (if reaches_gate world_down (example_request ''OPTIONS'' ''/api/health'')
           then [(MONGODB_URI example_env, the_connect_options)] else [])"
    by (rule serve_after_rejection
        [where e = "\<lparr>message = ''connect ECONNREFUSED'', statusCode = None\<rparr>"])
      (simp_all add: warm_def initial_state_def always_rejects_def example_reaches_gate)
  then show ?thesis
    by (simp add: handle_request_example_down example_reaches_gate res_json_parts
        handle_request_gate_state connect_down_cold)
qed

section \<open>The timestamp of the health payload\<close>

lemma digit_char_is_digit: "d < 10 \<Longrightarrow> is_digit (digit_char d)"
proof -
  assume "d < 10"
  then have "d \<in> set [0..<10]" by simp
  then have "d = 0 \<or> d = Suc 0 \<or> d = Suc (Suc 0) \<or> d = Suc (Suc (Suc 0)) \<or> d = Suc (Suc (Suc (Suc 0)))
     \<or> d = Suc (Suc (Suc (Suc (Suc 0)))) \<or> d = Suc (Suc (Suc (Suc (Suc (Suc 0)))))
     \<or> d = Suc (Suc (Suc (Suc (Suc (Suc (Suc 0)))))) \<or> d = Suc (Suc (Suc (Suc (Suc (Suc (Suc (Suc 0)))))))
     \<or> d = Suc (Suc (Suc (Suc (Suc (Suc (Suc (Suc (Suc 0))))))))"
    by (simp add: upt_rec)
  then show ?thesis
    by (elim disjE) (simp_all add: digit_char_def is_digit_def)
qed

lemma decimal_digits: "\<forall>c\<in>set (decimal n). is_digit c"
proof (induction n rule: decimal.induct)
  case (1 n)
  show ?case
  proof (cases "n < 10")
    case True
    then show ?thesis by (subst decimal.simps) (simp add: digit_char_is_digit)
  next
    case False
    then show ?thesis using 1 by (subst decimal.simps) (simp add: digit_char_is_digit)
  qed
qed

lemma decimal_length: "n < 10 ^ Suc k \<Longrightarrow> length (decimal n) \<le> Suc k"
proof (induction k arbitrary: n)
  case 0
  then show ?case by (subst decimal.simps) simp
next
  case (Suc k)
  show ?case
  proof (cases "n < 10")
    case True
    then show ?thesis by (subst decimal.simps) simp
  next
    case False
    from Suc.prems have "n div 10 < 10 ^ Suc k" by (simp add: less_mult_imp_div_less mult.commute)
    then have "length (decimal (n div 10)) \<le> Suc k" by (rule Suc.IH)
    then show ?thesis using False by (subst decimal.simps) simp
  qed
qed

lemma padStart_length: "length s \<le> w \<Longrightarrow> length (padStart w s) = w"
  by (simp add: padStart_def)

lemma is_digit_zero: "is_digit (CHR ''0'')"
  by (simp add: is_digit_def)

lemma padStart_digits: "\<forall>c\<in>set s. is_digit c \<Longrightarrow> \<forall>c\<in>set (padStart w s). is_digit c"
  by (auto simp: padStart_def is_digit_zero)

lemma matches_digits:
  "\<forall>c\<in>set ds. is_digit c \<Longrightarrow>
     matches_template (replicate (length ds) (CHR ''d'') @ ts) (ds @ cs) = matches_template ts cs"
  by (induction ds) simp_all

lemma matches_padded:
  assumes "n < 10 ^ w" and "0 < w"
  shows "matches_template (replicate w (CHR ''d'') @ ts) (padStart w (decimal n) @ cs)
           = matches_template ts cs"
proof -
  obtain k where w: "w = Suc k" using assms(2) by (cases w) auto
  have "length (decimal n) \<le> w" using assms(1) decimal_length [of n k] by (simp add: w)
  then have len: "length (padStart w (decimal n)) = w" by (rule padStart_length)
  have "\<forall>c\<in>set (padStart w (decimal n)). is_digit c"
    by (rule padStart_digits) (rule decimal_digits)
  then show ?thesis using matches_digits [of "padStart w (decimal n)" ts cs] by (simp add: len)
qed

lemma replicate_d:
  "replicate 2 (CHR ''d'') = ''dd''" "replicate 3 (CHR ''d'') = ''ddd''"
  "replicate 4 (CHR ''d'') = ''dddd''" "replicate 6 (CHR ''d'') = ''dddddd''"
  by (simp_all add: numeral_eq_Suc)

lemma matches_pad2:
  "n < 100 \<Longrightarrow>
     matches_template (CHR ''d'' # CHR ''d'' # ts) (padStart 2 (decimal n) @ cs) = matches_template ts cs"
  using matches_padded [of n 2 ts cs] by (simp add: replicate_d)

lemma matches_pad3:
  "n < 1000 \<Longrightarrow>
     matches_template (CHR ''d'' # CHR ''d'' # CHR ''d'' # ts) (padStart 3 (decimal n) @ cs)
       = matches_template ts cs"
  using matches_padded [of n 3 ts cs] by (simp add: replicate_d)

lemma matches_pad4:
  "n < 10000 \<Longrightarrow>
     matches_template (CHR ''d'' # CHR ''d'' # CHR ''d'' # CHR ''d'' # ts) (padStart 4 (decimal n) @ cs)
       = matches_template ts cs"
  using matches_padded [of n 4 ts cs] by (simp add: replicate_d)

lemma matches_pad6:
  "n < 1000000 \<Longrightarrow>
     matches_template (CHR ''d'' # CHR ''d'' # CHR ''d'' # CHR ''d'' # CHR ''d'' # CHR ''d'' # ts)
       (padStart 6 (decimal n) @ cs) = matches_template ts cs"
  using matches_padded [of n 6 ts cs] by (simp add: replicate_d)

lemma years_and_day_bounds:
  assumes "doe < 146097" and "years_and_day doe = (yoe, doy)"
  shows "yoe \<le> 399 \<and> doy \<le> 365"
proof -
  define n100 where "n100 = min (doe div 36524) 3"
  define doc where "doc = doe - n100 * 36524"
  define n4 where "n4 = doc div 1461"
  define dof where "dof = doc mod 1461"
  define n1 where "n1 = min (dof div 365) 3"
  have eq: "years_and_day doe = (n100 * 100 + n4 * 4 + n1, dof - n1 * 365)"
    unfolding years_and_day_def Let_def n100_def doc_def n4_def dof_def n1_def by (rule refl)
  have n100: "n100 \<le> 3" unfolding n100_def by (rule min.cobounded2)
  have "doc \<le> 36524" using assms(1) unfolding doc_def n100_def by (auto simp: min_def)
  then have n4: "n4 \<le> 24" unfolding n4_def by arith
  have n1: "n1 \<le> 3" unfolding n1_def by (rule min.cobounded2)
  have "dof < 1461" unfolding dof_def by (rule mod_less_divisor) simp
  then have doy: "dof - n1 * 365 \<le> 365" unfolding n1_def by (auto simp: min_def)
  have "yoe = n100 * 100 + n4 * 4 + n1" and "doy = dof - n1 * 365"
    using assms(2) eq by simp_all
  then show ?thesis using n100 n4 n1 doy by simp
qed

lemma month_and_day_bounds:
  assumes "doy \<le> 365" and "month_and_day doy = (m, d)"
  shows "1 \<le> m \<and> m \<le> 12 \<and> 1 \<le> d \<and> d \<le> 31"
proof -
  define mp where "mp = (5 * doy + 2) div 153"
  have eq: "month_and_day doy = (if mp < 10 then mp + 3 else mp - 9, doy - (153 * mp + 2) div 5 + 1)"
    unfolding month_and_day_def Let_def mp_def by (rule refl)
  have mp: "mp \<le> 11" using assms(1) unfolding mp_def by arith
  have d: "1 \<le> doy - (153 * mp + 2) div 5 + 1 \<and> doy - (153 * mp + 2) div 5 + 1 \<le> 31"
    using assms(1) unfolding mp_def by arith
  have "m = (if mp < 10 then mp + 3 else mp - 9)" and "d = doy - (153 * mp + 2) div 5 + 1"
    using assms(2) eq by simp_all
  then show ?thesis using mp d by auto
qed

lemma civil_from_days_bounds:
  assumes "civil_from_days n = (y, m, d)" and "- 100000000 \<le> n" and "n \<le> 100000000"
  shows "m \<le> 12 \<and> d \<le> 31 \<and> - 999999 \<le> y \<and> y \<le> 999999"
proof -
  define era where "era = (n + 719468) div 146097"
  define doe where "doe = nat ((n + 719468) mod 146097)"
  obtain yoe doy where yd: "years_and_day doe = (yoe, doy)"
    by (cases "years_and_day doe")
  obtain m' d' where md: "month_and_day doy = (m', d')"
    by (cases "month_and_day doy")
  have "doe < 146097" unfolding doe_def by simp
  then have b1: "yoe \<le> 399 \<and> doy \<le> 365" using yd by (rule years_and_day_bounds)
  then have b2: "1 \<le> m' \<and> m' \<le> 12 \<and> 1 \<le> d' \<and> d' \<le> 31"
    using md month_and_day_bounds [of doy m' d'] by simp
  have era: "- 681 \<le> era \<and> era \<le> 690" using assms(2,3) unfolding era_def by arith
  have "civil_from_days n = (era * 400 + int yoe + (if m' \<le> 2 then 1 else 0), m', d')"
    unfolding civil_from_days_def Let_def
    using yd md by (simp add: era_def doe_def)
  then have "y = era * 400 + int yoe + (if m' \<le> 2 then 1 else 0)" and "m = m'" and "d = d'"
    using assms(1) by simp_all
  then show ?thesis using era b1 b2 by auto
qed

lemma year_string_matches:
  assumes "- 999999 \<le> y" and "y \<le> 999999"
  shows "matches_template (''dddd'' @ ts) (year_string y @ cs) = matches_template ts cs
         \<or> matches_template (''+dddddd'' @ ts) (year_string y @ cs) = matches_template ts cs
         \<or> matches_template (''-dddddd'' @ ts) (year_string y @ cs) = matches_template ts cs"
proof (cases "0 \<le> y \<and> y \<le> 9999")
  case True
  then have "nat y < 10000" by arith
  then show ?thesis using True by (simp add: year_string_def matches_pad4)
next
  case False
  have "nat \<bar>y\<bar> < 1000000" using assms by arith
  then show ?thesis using False by (simp add: year_string_def matches_pad6)
qed

lemma time_of_day_bounds:
  assumes "ms < 86400000"
  shows "ms div 3600000 < 100" and "ms div 60000 mod 60 < 100" and "ms div 1000 mod 60 < 100"
    and "ms mod 1000 < (1000::nat)"
proof -
  show "ms div 3600000 < 100" using assms by arith
  have "ms div 60000 mod 60 < 60" by (rule mod_less_divisor) simp
  then show "ms div 60000 mod 60 < 100" by simp
  have "ms div 1000 mod 60 < 60" by (rule mod_less_divisor) simp
  then show "ms div 1000 mod 60 < 100" by simp
  show "ms mod 1000 < 1000" by (rule mod_less_divisor) simp
qed

lemma rest_matches:
  assumes "m < 100" "d < 100" "hh < 100" "mm < 100" "ss < 100" "mmm < 1000"
  shows "matches_template ''-dd-ddTdd:dd:dd.dddZ''
     (''-'' @ padStart 2 (decimal m) @ ''-'' @ padStart 2 (decimal d) @ ''T''
         @ padStart 2 (decimal hh) @ '':''
         @ padStart 2 (decimal mm) @ '':''
         @ padStart 2 (decimal ss) @ ''.''
         @ padStart 3 (decimal mmm) @ ''Z'')"
  using assms by (simp add: matches_pad2 matches_pad3)

lemma toISOString_is_iso8601:
  assumes "valid_time t"
  shows "is_iso8601 (toISOString t)"
proof -
  obtain y m d where c: "civil_from_days (t div 86400000) = (y, m, d)"
    by (cases "civil_from_days (t div 86400000)") auto
  have range: "- 100000000 \<le> t div 86400000 \<and> t div 86400000 \<le> 100000000"
    using assms unfolding valid_time_def by arith
  then have b: "m \<le> 12 \<and> d \<le> 31 \<and> - 999999 \<le> y \<and> y \<le> 999999"
    using civil_from_days_bounds [OF c] by simp
  define ms where "ms = nat (t mod 86400000)"
  have ms: "ms < 86400000" unfolding ms_def by simp
  define rest where "rest = ''-'' @ padStart 2 (decimal m) @ ''-'' @ padStart 2 (decimal d) @ ''T''
         @ padStart 2 (decimal (ms div 3600000)) @ '':''
         @ padStart 2 (decimal (ms div 60000 mod 60)) @ '':''
         @ padStart 2 (decimal (ms div 1000 mod 60)) @ ''.''
         @ padStart 3 (decimal (ms mod 1000)) @ ''Z''"
  have rest: "matches_template ''-dd-ddTdd:dd:dd.dddZ'' rest"
    unfolding rest_def using b time_of_day_bounds [OF ms]
    by (intro rest_matches) simp_all
  have eq: "toISOString t = year_string y @ rest"
    unfolding toISOString_def rest_def ms_def Let_def c prod.case by (rule refl)
  show ?thesis
    unfolding is_iso8601_def eq
    using year_string_matches [of y "''-dd-ddTdd:dd:dd.dddZ''" rest] b rest by auto
qed

section \<open>The health route, the environment and the timeouts\<close>

lemma health_object_json:
  "json_stringify (health_object env t s) =
     [(''status'', JStr ''success''),
      (''message'', JStr ''Hospital Management API is running''),
      (''timestamp'', JStr (toISOString t)),
      (''environment'', JStr (js_or (NODE_ENV env) ''production'')),
      (''mongoStatus'', JStr (if readyState s = 1 then ''connected'' else ''disconnected''))]"
  by (simp add: health_object_def json_stringify_def)

lemma health_payload_parts:
  "status (health_payload env t s) = 200"
  "body (health_payload env t s) =
     JsonBody [(''status'', JStr ''success''),
               (''message'', JStr ''Hospital Management API is running''),
               (''timestamp'', JStr (toISOString t)),
               (''environment'', JStr (js_or (NODE_ENV env) ''production'')),
               (''mongoStatus'', JStr (if readyState s = 1 then ''connected'' else ''disconnected''))]"
  by (simp_all add: health_payload_def json_response_def health_object_json)

lemma health_reaches_gate:
  "matches_route ''/api/health'' (req_path x r) \<Longrightarrow>
     reaches_gate x r = (req_method r \<noteq> ''OPTIONS'' \<and> body_parse r = BodyOk)"
  by (simp add: reaches_gate_def health_path_decodes)

lemma handle_request_health:
  assumes "reaches_gate x r" and "fst (connectToDatabase env (connect_answer x) s) = Inr db"
    and "matches_route ''/api/health'' (req_path x r)" and "handles_get (req_method r)"
  shows "handle_request env x s r =
     (res_json r 200 (health_object env (now x) (snd (connectToDatabase env (connect_answer x) s))),
      snd (connectToDatabase env (connect_answer x) s),
      pre_gate @ [HealthRoute])"
proof -
  have "run (router env x) None (guarded x r) (snd (connectToDatabase env (connect_answer x) s)) =
      (res_json r 200 (health_object env (now x) (snd (connectToDatabase env (connect_answer x) s))),
       snd (connectToDatabase env (connect_answer x) s), [HealthRoute])"
    using run_router_health [where x = x and r = "guarded x r" and env = env] assms(3,4)
    by simp
  then show ?thesis
    using handle_request_gate_open [OF assms(1,2)] by (simp add: after_def)
qed

lemma handle_request_health_other_method:
  assumes "reaches_gate x r" and "fst (connectToDatabase env (connect_answer x) s) = Inr db"
    and "matches_route ''/api/health'' (req_path x r)" and "\<not> handles_get (req_method r)"
  shows "handle_request env x s r =
     (route_not_found r, snd (connectToDatabase env (connect_answer x) s),
      pre_gate @ [NotFoundHandler])"
proof -
  have "req_method r \<noteq> ''HEAD''"
    using assms(4) by (auto simp: handles_get_def)
  then have "res_json r 404 (route_not_found_object r) = route_not_found r"
    by (simp add: res_json_def route_not_found_def)
  then show ?thesis
    using handle_request_unmatched [OF assms(1,2)] health_path [OF assms(3)] assms(4)
    by simp
qed

text \<open>
  C2, as amended. For every \<^verbatim>\<open>GET\<close> request to \<^verbatim>\<open>/api/health\<close> that passes the
  connection gate, the response has status 200 and the body holds \<^verbatim>\<open>status: 'success'\<close>, a
  message, the timestamp in ISO 8601 form, the environment, and a field named
  \<^verbatim>\<open>mongoStatus\<close> (the body has no field \<^verbatim>\<open>backingStoreStatus\<close>) whose value is
  \<^verbatim>\<open>'connected'\<close> when mongoose's \<^verbatim>\<open>readyState\<close> is 1 and \<^verbatim>\<open>'disconnected'\<close>
  otherwise.
\<close>

theorem health_check_payload:
  "(body_parse r = BodyOk
    \<and> fst (connectToDatabase env (connect_answer x) s) = Inr db
    \<and> req_method r = ''GET''
    \<and> matches_route ''/api/health'' (req_path x r)
    \<and> valid_time (now x)
    \<longrightarrow>
      fst (handle_request env x s r) =
        health_payload env (now x) (snd (connectToDatabase env (connect_answer x) s))
      \<and> is_iso8601 (toISOString (now x)))
   \<and> status (health_payload env t s') = 200
   \<and> body (health_payload env t s') =
       JsonBody [(''status'', JStr ''success''),
                 (''message'', JStr ''Hospital Management API is running''),
                 (''timestamp'', JStr (toISOString t)),
                 (''environment'', JStr (js_or (NODE_ENV env) ''production'')),
                 (''mongoStatus'',
                    JStr (if readyState s' = 1 then ''connected'' else ''disconnected''))]
   \<and> field (health_payload env t s') ''backingStoreStatus'' = None"
proof (intro conjI impI)
  assume h: "body_parse r = BodyOk
    \<and> fst (connectToDatabase env (connect_answer x) s) = Inr db
    \<and> req_method r = ''GET''
    \<and> matches_route ''/api/health'' (req_path x r)
    \<and> valid_time (now x)"
  then have get: "handles_get (req_method r)" and gate: "reaches_gate x r"
    by (simp_all add: handles_get_def health_reaches_gate)
  have "res_json r 200 (health_object env (now x) (snd (connectToDatabase env (connect_answer x) s)))
      = health_payload env (now x) (snd (connectToDatabase env (connect_answer x) s))"
    using h by (simp add: res_json_def health_payload_def)
  with h get gate show "fst (handle_request env x s r) =
        health_payload env (now x) (snd (connectToDatabase env (connect_answer x) s))"
    by (simp add: handle_request_health [where db = db])
  from h show "is_iso8601 (toISOString (now x))"
    by (simp add: toISOString_is_iso8601)
next
  show "status (health_payload env t s') = 200"
    by (rule health_payload_parts)
  show "body (health_payload env t s') =
       JsonBody [(''status'', JStr ''success''),
                 (''message'', JStr ''Hospital Management API is running''),
                 (''timestamp'', JStr (toISOString t)),
                 (''environment'', JStr (js_or (NODE_ENV env) ''production'')),
                 (''mongoStatus'',
                    JStr (if readyState s' = 1 then ''connected'' else ''disconnected''))]"
    by (rule health_payload_parts)
  show "field (health_payload env t s') ''backingStoreStatus'' = None"
    by (simp add: field_def health_payload_parts)
qed

lemma example_date: "civil_from_days 19675 = (2023, 11, 14)"
proof -
  have z: "nat ((19675 + 719468) mod 146097) = 8658" "(19675 + 719468) div 146097 = (5::int)"
    by simp_all
  have yd: "years_and_day 8658 = (23, 258)"
    by (simp add: years_and_day_def Let_def)
  have md: "month_and_day 258 = (11, 14)"
    by (simp add: month_and_day_def Let_def)
  show ?thesis
    unfolding civil_from_days_def Let_def z yd md prod.case by simp
qed

lemma example_decimals:
  "decimal 2023 = ''2023''" "decimal 11 = ''11''" "decimal 14 = ''14''" "decimal 22 = ''22''"
  "decimal 13 = ''13''" "decimal 20 = ''20''" "decimal 0 = ''0''"
  by (simp_all add: decimal.simps digit_char_def)

lemma example_time: "toISOString 1700000000000 = ''2023-11-14T22:13:20.000Z''"
proof -
  have t: "(1700000000000::int) div 86400000 = 19675"
    "nat (1700000000000 mod 86400000) = 80000000"
    by simp_all
  have hms: "(80000000::nat) div 3600000 = 22" "(80000000::nat) div 60000 mod 60 = 13"
    "(80000000::nat) div 1000 mod 60 = 20" "(80000000::nat) mod 1000 = 0"
    by simp_all
  show ?thesis
    unfolding toISOString_def Let_def t example_date prod.case hms
    by (simp add: year_string_def example_decimals padStart_def numeral_2_eq_2)
qed

lemma example_time_is_iso8601: "is_iso8601 ''2023-11-14T22:13:20.000Z''"
  by (simp add: is_iso8601_def is_digit_def)

lemma example_time_valid: "valid_time 1700000000000"
  by (simp add: valid_time_def)


lemma handle_request_example_health:
  assumes "handles_get m"
  shows "handle_request example_env world_up initial_state (example_request m ''/api/health'')
      = (res_json (example_request m ''/api/health'') 200
           (health_object example_env 1700000000000
              (snd (connectToDatabase example_env always_resolves initial_state))),
         snd (connectToDatabase example_env always_resolves initial_state),
         pre_gate @ [HealthRoute])"
  using handle_request_health
    [of world_up "example_request m ''/api/health''" example_env initial_state 7] assms
  by (auto simp: connect_up_cold example_paths health_matches handles_get_def
      example_reaches_gate)

theorem health_check_payload_witness:
  "body_parse (example_request ''GET'' ''/api/health'') = BodyOk
   \<and> fst (connectToDatabase example_env (connect_answer world_up) initial_state) = Inr 7
   \<and> req_method (example_request ''GET'' ''/api/health'') = ''GET''
   \<and> matches_route ''/api/health'' (req_path world_up (example_request ''GET'' ''/api/health''))
   \<and> valid_time (now world_up)
   \<and> fst (handle_request example_env world_up initial_state (example_request ''GET'' ''/api/health''))
       = \<lparr>status = 200,
          body = JsonBody [(''status'', JStr ''success''),
                           (''message'', JStr ''Hospital Management API is running''),
                           (''timestamp'', JStr ''2023-11-14T22:13:20.000Z''),
                           (''environment'', JStr ''production''),
                           (''mongoStatus'', JStr ''connected'')]\<rparr>
   \<and> is_iso8601 ''2023-11-14T22:13:20.000Z''"
  using health_check_payload
    [of "example_request ''GET'' ''/api/health''" example_env world_up initial_state 7]
  by (simp add: connect_up_cold example_paths health_matches example_time example_time_valid
      example_time_is_iso8601 health_payload_def json_response_def health_object_json js_or_def)

text \<open>
  The statement of C2 fails on the name of the last field: the payload of
  \<^verbatim>\<open>GET /api/health\<close> has no field \<^verbatim>\<open>backingStoreStatus\<close>; the connection state is
  reported under \<^verbatim>\<open>mongoStatus\<close>.
\<close>

theorem health_payload_has_no_backingStoreStatus:
  "field (fst (handle_request example_env world_up initial_state
      (example_request ''GET'' ''/api/health''))) ''backingStoreStatus'' = None
   \<and> field (fst (handle_request example_env world_up initial_state
      (example_request ''GET'' ''/api/health''))) ''mongoStatus'' = Some (JStr ''connected'')"
  by (simp add: handle_request_example_health handles_get_def connect_up_cold field_def
      res_json_parts health_object_json)

text \<open>
  C9, as amended. The health route is registered with \<^verbatim>\<open>app.get\<close>, which Express also
  uses for \<^verbatim>\<open>HEAD\<close>. A request to \<^verbatim>\<open>/api/health\<close> that reaches the router (it is not a
  preflight, its body parses and \<^verbatim>\<open>connectToDatabase\<close> returned) is answered by the
  health route when its method is \<^verbatim>\<open>GET\<close> or \<^verbatim>\<open>HEAD\<close>, with the health payload for
  \<^verbatim>\<open>GET\<close> and with status 200 and no body for \<^verbatim>\<open>HEAD\<close>; with any other method it
  matches no entry of the route table and the catch-all answers with the 404 envelope.
\<close>

theorem health_route_methods:
  "reaches_gate x r
   \<and> fst (connectToDatabase env (connect_answer x) s) = Inr db
   \<and> matches_route ''/api/health'' (req_path x r)
   \<longrightarrow>
     \<not> in_route_table (req_path x r)
     \<and> handle_request env x s r =
        (if req_method r = ''GET''
         then (health_payload env (now x) (snd (connectToDatabase env (connect_answer x) s)),
               snd (connectToDatabase env (connect_answer x) s),
               pre_gate @ [HealthRoute])
         else if req_method r = ''HEAD''
         then (\<lparr>status = 200, body = EmptyBody\<rparr>,
               snd (connectToDatabase env (connect_answer x) s),
               pre_gate @ [HealthRoute])
         else (route_not_found r,
               snd (connectToDatabase env (connect_answer x) s),
               pre_gate @ [NotFoundHandler]))"
proof (intro impI, elim conjE)
  assume gate: "reaches_gate x r"
    and ok: "fst (connectToDatabase env (connect_answer x) s) = Inr db"
    and path: "matches_route ''/api/health'' (req_path x r)"
  show "\<not> in_route_table (req_path x r)
     \<and> handle_request env x s r =
        (if req_method r = ''GET''
         then (health_payload env (now x) (snd (connectToDatabase env (connect_answer x) s)),
               snd (connectToDatabase env (connect_answer x) s),
               pre_gate @ [HealthRoute])
         else if req_method r = ''HEAD''
         then (\<lparr>status = 200, body = EmptyBody\<rparr>,
               snd (connectToDatabase env (connect_answer x) s),
               pre_gate @ [HealthRoute])
         else (route_not_found r,
               snd (connectToDatabase env (connect_answer x) s),
               pre_gate @ [NotFoundHandler]))"
  proof (cases "handles_get (req_method r)")
    case True
    then show ?thesis
      using handle_request_health [OF gate ok path True] health_path(1) [OF path]
      by (auto simp: handles_get_def res_json_def health_payload_def)
  next
    case False
    then show ?thesis
      using handle_request_health_other_method [OF gate ok path False] health_path(1) [OF path]
      by (simp add: handles_get_def)
  qed
qed

theorem health_route_methods_witness:
  "reaches_gate world_up (example_request ''POST'' ''/api/health'')
   \<and> fst (connectToDatabase example_env (connect_answer world_up) initial_state) = Inr 7
   \<and> matches_route ''/api/health'' (req_path world_up (example_request ''POST'' ''/api/health''))
   \<and> fst (handle_request example_env world_up initial_state (example_request ''POST'' ''/api/health''))
       = \<lparr>status = 404,
          body = JsonBody [(''status'', JStr ''error''),
                           (''message'', JStr ''API route /api/health not found'')]\<rparr>
   \<and> snd (snd (handle_request example_env world_up initial_state
        (example_request ''POST'' ''/api/health''))) = pre_gate @ [NotFoundHandler]"
  using health_route_methods
    [of world_up "example_request ''POST'' ''/api/health''" example_env initial_state 7]
  by (simp add: connect_up_cold example_paths health_matches example_reaches_gate
      route_not_found_def json_response_def route_not_found_object_json)

text \<open>
  The statement of C9 fails for \<^verbatim>\<open>HEAD\<close>, which is neither \<^verbatim>\<open>GET\<close> nor
  \<^verbatim>\<open>OPTIONS\<close>: \<^verbatim>\<open>HEAD /api/health\<close> is answered by the health route, not by the
  catch-all, with status 200 and no body; and a \<^verbatim>\<open>POST /api/health\<close> whose connect is
  rejected is answered with status 500 by the gate.
\<close>

theorem head_is_served_by_health_route:
  "req_method (example_request ''HEAD'' ''/api/health'') \<noteq> ''GET''
   \<and> req_method (example_request ''HEAD'' ''/api/health'') \<noteq> ''OPTIONS''
   \<and> matches_route ''/api/health'' (req_path world_up (example_request ''HEAD'' ''/api/health''))
   \<and> fst (handle_request example_env world_up initial_state
        (example_request ''HEAD'' ''/api/health'')) = \<lparr>status = 200, body = EmptyBody\<rparr>
   \<and> snd (snd (handle_request example_env world_up initial_state
        (example_request ''HEAD'' ''/api/health''))) = pre_gate @ [HealthRoute]
   \<and> status (fst (handle_request example_env world_down initial_state
        (example_request ''POST'' ''/api/health''))) = 500"
  by (simp add: handle_request_example_health handles_get_def handle_request_example_down
      example_reaches_gate example_paths health_matches res_json_def json_response_def)




lemma handle_request_connect_calls:
  "connect_calls (fst (snd (handle_request env x s r))) = connect_calls s
   \<or> connect_calls (fst (snd (handle_request env x s r))) =
       connect_calls s @ [(MONGODB_URI env, the_connect_options)]"
  by (simp add: handle_request_gate_state connectToDatabase_calls)

lemma bounded_wait_the_connect_options: "bounded_wait (uri, the_connect_options)"
  by (simp add: bounded_wait_def the_connect_options_def)

lemma serve_bounded_wait:
  "list_all bounded_wait (connect_calls s) \<Longrightarrow>
     list_all bounded_wait (connect_calls (serve env x s rs))"
proof (induction rs arbitrary: s)
  case Nil
  then show ?case by simp
next
  case (Cons r rs)
  have "list_all bounded_wait (connect_calls (fst (snd (handle_request env x s r))))"
    using handle_request_connect_calls [of env x s r] Cons.prems
    by (auto simp: bounded_wait_the_connect_options)
  then show ?case using Cons.IH by simp
qed

text \<open>
  C7. Every call of \<^verbatim>\<open>mongoose.connect\<close> that \<^verbatim>\<open>connectToDatabase\<close> makes is configured
  with \<^verbatim>\<open>serverSelectionTimeoutMS\<close> 5000 and \<^verbatim>\<open>socketTimeoutMS\<close> 45000: the calls one
  invocation adds to those made before, from any state, and all the calls a process has made
  after serving any sequence of requests.
\<close>

theorem connect_timeouts:
  "list_all bounded_wait
     (drop (length (connect_calls s)) (connect_calls (snd (connectToDatabase env answer s))))
   \<and> list_all bounded_wait (connect_calls (serve env x initial_state rs))
   \<and> serverSelectionTimeoutMS the_connect_options = 5000
   \<and> socketTimeoutMS the_connect_options = 45000"
proof (intro conjI)
  show "list_all bounded_wait
     (drop (length (connect_calls s)) (connect_calls (snd (connectToDatabase env answer s))))"
    by (simp add: connectToDatabase_calls bounded_wait_the_connect_options)
  show "list_all bounded_wait (connect_calls (serve env x initial_state rs))"
    by (rule serve_bounded_wait) (simp add: initial_state_def)
qed (simp_all add: the_connect_options_def)

theorem connect_timeouts_witness:
  "connect_calls (serve example_env world_up initial_state
      [example_request ''OPTIONS'' ''/api/health'', example_request ''GET'' ''/api/health''])
     = [(Some ''mongodb://db.example/clinic'', the_connect_options)]
   \<and> list_all bounded_wait (connect_calls (serve example_env world_up initial_state
      [example_request ''OPTIONS'' ''/api/health'', example_request ''GET'' ''/api/health'']))"
proof -
  have calls: "connect_calls (serve example_env world_up initial_state
      [example_request ''OPTIONS'' ''/api/health'', example_request ''GET'' ''/api/health''])
     = [(Some ''mongodb://db.example/clinic'', the_connect_options)]"
    by (simp add: handle_request_options handle_request_example_health handles_get_def
        connect_up_cold)
  show ?thesis
    using connect_timeouts [of initial_state example_env always_resolves world_up
        "[example_request ''OPTIONS'' ''/api/health'', example_request ''GET'' ''/api/health'']"]
      calls
    by simp
qed

section \<open>Repeated query parameters\<close>








end
